theory Spec2Isabelle
  imports Main "HOL-Library.Word"
begin

section \<open>Hub shuttle: data model\<close>

text \<open>
  The embedding follows \<^verbatim>\<open>packages/hub-shuttle/dist/index.mjs\<close> (the sections
  \<^verbatim>\<open>src/utils.ts\<close>, \<^verbatim>\<open>src/shuttle/redis.ts\<close>, \<^verbatim>\<open>src/shuttle/messageProcessor.ts\<close>,
  \<^verbatim>\<open>src/shuttle/hubEventProcessor.ts\<close> and \<^verbatim>\<open>src/shuttle/messageReconciliation.ts\<close>)
  and the row types of \<^verbatim>\<open>index.d.ts\<close>. Byte arrays (\<^verbatim>\<open>Uint8Array\<close>) are lists of
  8-bit words, JavaScript numbers that hold ids, fids and enum tags are naturals,
  a \<^verbatim>\<open>Date\<close> is its number of milliseconds since the Unix epoch.
\<close>

type_synonym bytes = "8 word list"

type_synonym date = int

text \<open>A JavaScript value that may be \<^verbatim>\<open>undefined\<close> or \<^verbatim>\<open>null\<close>.\<close>

datatype 'a js_opt = Undefined | Null | Defined 'a

text \<open>
  \<^verbatim>\<open>MessageType\<close> and \<^verbatim>\<open>Protocol\<close> are enums of the hub SDK. The constructors are the
  members the shuttle names; any other number a decoded protobuf may carry is kept
  under the last constructor, which is what the \<^verbatim>\<open>default\<close> arms of the switches see.
\<close>

datatype message_type =
    CAST_ADD | CAST_REMOVE | REACTION_ADD | REACTION_REMOVE | LINK_ADD | LINK_REMOVE
  | VERIFICATION_ADD_ETH_ADDRESS | VERIFICATION_REMOVE | USER_DATA_ADD | USERNAME_PROOF
  | OTHER_MESSAGE_TYPE nat

datatype protocol = ETHEREUM | SOLANA | OTHER_PROTOCOL nat

text \<open>
  \<^verbatim>\<open>protocolBytesToString\<close> compares its second argument both with the enum members
  and with the strings \<^verbatim>\<open>"ethereum"\<close> and \<^verbatim>\<open>"solana"\<close>.
\<close>

datatype protocol_arg = ProtocolEnum protocol | ProtocolName string

record cast_id =
  ci_fid :: nat
  ci_hash :: bytes

record embed =
  em_url :: "string option"
  em_castId :: "cast_id option"

record cast_add_body =
  cab_embeds :: "embed list"
  cab_mentions :: "nat list"
  cab_mentionsPositions :: "nat list"
  cab_text :: string
  cab_parentCastId :: "cast_id option"
  cab_parentUrl :: "string option"

record cast_remove_body =
  crb_targetHash :: bytes

record reaction_body =
  rb_type :: nat
  rb_targetCastId :: "cast_id option"
  rb_targetUrl :: "string option"

record link_body =
  lb_type :: string
  lb_displayTimestamp :: "nat option"
  lb_targetFid :: "nat option"

record verification_add_address_body =
  vab_address :: bytes
  vab_claimSignature :: bytes
  vab_blockHash :: bytes
  vab_protocol :: protocol

record verification_remove_body =
  vrb_address :: bytes
  vrb_protocol :: protocol

record user_data_body =
  udb_type :: nat
  udb_value :: string

record username_proof_body =
  upb_timestamp :: nat
  upb_name :: bytes
  upb_owner :: bytes
  upb_signature :: bytes
  upb_fid :: nat
  upb_type :: nat

text \<open>
  \<^verbatim>\<open>MessageData\<close>: the type tag and the body are separate fields (the protobuf oneof is
  flattened into optional fields), so a tag may come with a missing or a different body.
\<close>

record message_data =
  md_type :: message_type
  md_fid :: nat
  md_timestamp :: nat
  md_castAddBody :: "cast_add_body option"
  md_castRemoveBody :: "cast_remove_body option"
  md_reactionBody :: "reaction_body option"
  md_linkBody :: "link_body option"
  md_verificationAddAddressBody :: "verification_add_address_body option"
  md_verificationRemoveBody :: "verification_remove_body option"
  md_userDataBody :: "user_data_body option"
  md_usernameProofBody :: "username_proof_body option"

record message =
  msg_data :: "message_data option"
  msg_hash :: bytes
  msg_hashScheme :: nat
  msg_signatureScheme :: nat
  msg_signer :: bytes

subsection \<open>Decoded bodies (\<^verbatim>\<open>MessageBodyJson\<close>)\<close>

datatype cast_target_json = CastIdJson nat string | UrlJson string

datatype message_body_json =
    CastAddBodyJson (cj_embeds: "string list") (cj_mentions: "nat list")
      (cj_mentionsPositions: "nat list") (cj_text: string) (cj_parent: "cast_target_json option")
  | CastRemoveBodyJson (crj_targetHash: string)
  | ReactionBodyJson (rj_type: nat) (rj_target: cast_target_json)
  | LinkBodyJson (lj_type: string) (lj_targetFid: nat) (lj_displayTimestamp: "int option")
  | VerificationAddEthAddressBodyJson (vj_address: string) (vj_claimSignature: string)
      (vj_blockHash: string) (vj_protocol: "string option")
  | VerificationRemoveBodyJson (vrj_address: string) (vrj_protocol: "string option")
  | UserDataBodyJson (uj_type: nat) (uj_value: string)
  | UsernameProofBodyJson (pj_timestamp: nat) (pj_name: string) (pj_owner: string)
      (pj_signature: string) (pj_fid: nat) (pj_type: nat)

subsection \<open>Errors\<close>

text \<open>
  Every \<^verbatim>\<open>throw\<close> of the shuttle is a value of this type. \<open>HubError\<close> is an error
  object handed over by the hub SDK (\<^verbatim>\<open>throw result.error\<close>, \<^verbatim>\<open>_unsafeUnwrap\<close>),
  \<open>HandlerError\<close> is whatever the caller's hook raised.
\<close>

datatype error =
    InvalidMessage string
  | MessageDataMissing
  | MissingBody string
  | MissingReactionTarget
  | MissingLinkTarget
  | UnknownMessageType "message_type option"
  | UnexpectedProtocol protocol_arg
  | HubError string
  | HandlerError string
  | HubPageError string

subsection \<open>The hub SDK\<close>

text \<open>
  The functions the shuttle imports from \<^verbatim>\<open>@farcaster/hub-nodejs\<close> are parameters of
  the model: message validation (\<open>None\<close> when valid, otherwise the error message),
  the conversion of a Farcaster time to Unix milliseconds, base58 encoding and the
  protobuf encoder \<^verbatim>\<open>Message.encode(m).finish()\<close>.
\<close>

record sdk =
  validateMessage :: "message \<Rightarrow> string option"
  fromFarcasterTime :: "nat \<Rightarrow> error + int"
  bytesToBase58 :: "bytes \<Rightarrow> error + string"
  encode :: "message \<Rightarrow> bytes"

section \<open>\<^verbatim>\<open>src/utils.ts\<close>\<close>

definition hexDigit :: "nat \<Rightarrow> char" where
  "hexDigit n = ''0123456789abcdef'' ! (n mod 16)"

definition byteToHex :: "8 word \<Rightarrow> string" where
  "byteToHex b = [hexDigit (unat b div 16), hexDigit (unat b mod 16)]"

text \<open>\<^verbatim>\<open>Buffer.from(value).toString("hex")\<close>: two lower-case digits per byte.\<close>

definition toHexString :: "bytes \<Rightarrow> string" where
  "toHexString value = concat (map byteToHex value)"

definition bytesToHex :: "bytes \<Rightarrow> string" where
  "bytesToHex value = ''0x'' @ toHexString value"

fun farcasterTimeToDate :: "sdk \<Rightarrow> nat js_opt \<Rightarrow> error + date js_opt" where
  "farcasterTimeToDate s Undefined = Inr Undefined"
| "farcasterTimeToDate s Null = Inr Null"
| "farcasterTimeToDate s (Defined time) =
     (case fromFarcasterTime s time of
        Inl e \<Rightarrow> Inl e
      | Inr v \<Rightarrow> Inr (Defined v))"

fun protocolBytesToString :: "sdk \<Rightarrow> bytes \<Rightarrow> protocol_arg \<Rightarrow> error + string" where
  "protocolBytesToString s bs (ProtocolEnum ETHEREUM) = Inr (bytesToHex bs)"
| "protocolBytesToString s bs (ProtocolEnum SOLANA) = bytesToBase58 s bs"
| "protocolBytesToString s bs (ProtocolEnum (OTHER_PROTOCOL n)) =
     Inl (UnexpectedProtocol (ProtocolEnum (OTHER_PROTOCOL n)))"
| "protocolBytesToString s bs (ProtocolName p) =
     (if p = ''ethereum'' then Inr (bytesToHex bs)
      else if p = ''solana'' then bytesToBase58 s bs
      else Inl (UnexpectedProtocol (ProtocolName p)))"

fun hubProtocolToVerificationProtocol :: "protocol \<Rightarrow> string option" where
  "hubProtocolToVerificationProtocol ETHEREUM = Some ''ethereum''"
| "hubProtocolToVerificationProtocol SOLANA = Some ''solana''"
| "hubProtocolToVerificationProtocol (OTHER_PROTOCOL n) = None"

text \<open>The loop over \<^verbatim>\<open>embedsFromCastAddBody\<close>: a cast id wins over a url, an embed with neither is dropped.\<close>

fun convertEmbeds :: "embed list \<Rightarrow> string list" where
  "convertEmbeds [] = []"
| "convertEmbeds (e # es) =
     (case em_castId e of
        Some c \<Rightarrow> bytesToHex (ci_hash c) # convertEmbeds es
      | None \<Rightarrow>
          (case em_url e of
             Some u \<Rightarrow> u # convertEmbeds es
           | None \<Rightarrow> convertEmbeds es))"

definition convertCastAdd :: "cast_add_body \<Rightarrow> message_body_json" where
  "convertCastAdd b =
     CastAddBodyJson (convertEmbeds (cab_embeds b)) (cab_mentions b) (cab_mentionsPositions b)
       (cab_text b)
       (case cab_parentCastId b of
          Some p \<Rightarrow> Some (CastIdJson (ci_fid p) (bytesToHex (ci_hash p)))
        | None \<Rightarrow> map_option UrlJson (cab_parentUrl b))"

text \<open>\<^verbatim>\<open>targetUrl\<close> is tested for truthiness: the empty string counts as missing.\<close>

definition convertReaction :: "reaction_body \<Rightarrow> error + message_body_json" where
  "convertReaction b =
     (case rb_targetCastId b of
        Some c \<Rightarrow> Inr (ReactionBodyJson (rb_type b) (CastIdJson (ci_fid c) (bytesToHex (ci_hash c))))
      | None \<Rightarrow>
          (case rb_targetUrl b of
             Some u \<Rightarrow>
               (if u \<noteq> [] then Inr (ReactionBodyJson (rb_type b) (UrlJson u))
                else Inl MissingReactionTarget)
           | None \<Rightarrow> Inl MissingReactionTarget))"

text \<open>\<^verbatim>\<open>targetFid\<close> and \<^verbatim>\<open>displayTimestamp\<close> are tested for truthiness: 0 counts as missing.\<close>

definition convertLink :: "sdk \<Rightarrow> link_body \<Rightarrow> error + message_body_json" where
  "convertLink s b =
     (case lb_targetFid b of
        None \<Rightarrow> Inl MissingLinkTarget
      | Some target \<Rightarrow>
          (if target = 0 then Inl MissingLinkTarget
           else
             (case lb_displayTimestamp b of
                None \<Rightarrow> Inr (LinkBodyJson (lb_type b) target None)
              | Some d \<Rightarrow>
                  (if d = 0 then Inr (LinkBodyJson (lb_type b) target None)
                   else
                     (case fromFarcasterTime s d of
                        Inl e \<Rightarrow> Inl e
                      | Inr v \<Rightarrow> Inr (LinkBodyJson (lb_type b) target (Some v)))))))"

text \<open>The fields of the object literal are evaluated in order; the first that throws ends the conversion.\<close>

definition convertVerificationAdd :: "sdk \<Rightarrow> verification_add_address_body \<Rightarrow> error + message_body_json" where
  "convertVerificationAdd s b =
     (case protocolBytesToString s (vab_address b) (ProtocolEnum (vab_protocol b)) of
        Inl e \<Rightarrow> Inl e
      | Inr a \<Rightarrow>
          (case protocolBytesToString s (vab_claimSignature b) (ProtocolEnum (vab_protocol b)) of
             Inl e \<Rightarrow> Inl e
           | Inr c \<Rightarrow>
               (case protocolBytesToString s (vab_blockHash b) (ProtocolEnum (vab_protocol b)) of
                  Inl e \<Rightarrow> Inl e
                | Inr h \<Rightarrow>
                    Inr (VerificationAddEthAddressBodyJson a c h
                           (hubProtocolToVerificationProtocol (vab_protocol b))))))"

definition convertVerificationRemove :: "sdk \<Rightarrow> verification_remove_body \<Rightarrow> error + message_body_json" where
  "convertVerificationRemove s b =
     (case protocolBytesToString s (vrb_address b) (ProtocolEnum (vrb_protocol b)) of
        Inl e \<Rightarrow> Inl e
      | Inr a \<Rightarrow>
          Inr (VerificationRemoveBodyJson a (hubProtocolToVerificationProtocol (vrb_protocol b))))"

definition convertUsernameProof :: "username_proof_body \<Rightarrow> message_body_json" where
  "convertUsernameProof b =
     UsernameProofBodyJson (upb_timestamp b) (bytesToHex (upb_name b)) (bytesToHex (upb_owner b))
       (bytesToHex (upb_signature b)) (upb_fid b) (upb_type b)"

text \<open>
  \<^verbatim>\<open>convertProtobufMessageBodyToJson\<close>: the switch on \<^verbatim>\<open>message.data?.type\<close>, one
  equation per \<^verbatim>\<open>case\<close>; the helper definitions above are the bodies of the arms.
\<close>

fun convertBody :: "sdk \<Rightarrow> message_data \<Rightarrow> message_type \<Rightarrow> error + message_body_json" where
  "convertBody s d CAST_ADD =
     (case md_castAddBody d of
        None \<Rightarrow> Inl (MissingBody ''castAddBody'')
      | Some b \<Rightarrow> Inr (convertCastAdd b))"
| "convertBody s d CAST_REMOVE =
     (case md_castRemoveBody d of
        None \<Rightarrow> Inl (MissingBody ''castRemoveBody'')
      | Some b \<Rightarrow> Inr (CastRemoveBodyJson (bytesToHex (crb_targetHash b))))"
| "convertBody s d REACTION_ADD =
     (case md_reactionBody d of
        None \<Rightarrow> Inl (MissingBody ''reactionBody'')
      | Some b \<Rightarrow> convertReaction b)"
| "convertBody s d REACTION_REMOVE =
     (case md_reactionBody d of
        None \<Rightarrow> Inl (MissingBody ''reactionBody'')
      | Some b \<Rightarrow> convertReaction b)"
| "convertBody s d LINK_ADD =
     (case md_linkBody d of
        None \<Rightarrow> Inl (MissingBody ''linkBody'')
      | Some b \<Rightarrow> convertLink s b)"
| "convertBody s d LINK_REMOVE =
     (case md_linkBody d of
        None \<Rightarrow> Inl (MissingBody ''linkBody'')
      | Some b \<Rightarrow> convertLink s b)"
| "convertBody s d VERIFICATION_ADD_ETH_ADDRESS =
     (case md_verificationAddAddressBody d of
        None \<Rightarrow> Inl (MissingBody ''verificationAddAddressBody'')
      | Some b \<Rightarrow> convertVerificationAdd s b)"
| "convertBody s d VERIFICATION_REMOVE =
     (case md_verificationRemoveBody d of
        None \<Rightarrow> Inl (MissingBody ''verificationRemoveBody'')
      | Some b \<Rightarrow> convertVerificationRemove s b)"
| "convertBody s d USER_DATA_ADD =
     (case md_userDataBody d of
        None \<Rightarrow> Inl (MissingBody ''userDataBody'')
      | Some b \<Rightarrow> Inr (UserDataBodyJson (udb_type b) (udb_value b)))"
| "convertBody s d USERNAME_PROOF =
     (case md_usernameProofBody d of
        None \<Rightarrow> Inl (MissingBody ''usernameProofBody'')
      | Some b \<Rightarrow> Inr (convertUsernameProof b))"
| "convertBody s d (OTHER_MESSAGE_TYPE n) = Inl (UnknownMessageType (Some (OTHER_MESSAGE_TYPE n)))"

definition convertProtobufMessageBodyToJson :: "sdk \<Rightarrow> message \<Rightarrow> error + message_body_json" where
  "convertProtobufMessageBodyToJson s m =
     (case msg_data m of
        None \<Rightarrow> Inl (UnknownMessageType None)
      | Some d \<Rightarrow> convertBody s d (md_type d))"

section \<open>\<^verbatim>\<open>src/shuttle/redis.ts\<close>\<close>

text \<open>
  The Redis keyspace is a map from keys to string values. An event id is a JavaScript
  number holding a non-negative integer. Up to \<^verbatim>\<open>Number.MAX_SAFE_INTEGER\<close> every
  integer is a number of its own, \<^verbatim>\<open>toString\<close> prints its decimal digits and
  \<^verbatim>\<open>parseInt\<close> reads them back exactly. Above it the behaviour is that of floating
  point: \<^verbatim>\<open>toString\<close> prints the shortest digits that identify the number, in exponent
  notation from \<^verbatim>\<open>1e21\<close> on, and \<^verbatim>\<open>parseInt\<close> rounds. That part of the runtime is a
  parameter of the model.
\<close>

type_synonym redis = "string \<rightharpoonup> string"

definition MAX_SAFE_INTEGER :: nat where
  "MAX_SAFE_INTEGER = 2 ^ 53 - 1"

text \<open>
  The runtime above the safe range: the string \<^verbatim>\<open>toString\<close> prints for a number, and
  the number \<^verbatim>\<open>parseInt\<close> returns for the value of a digit string (\<open>None\<close> when it is
  not finite).
\<close>

record js_runtime =
  largeNumberToString :: "nat \<Rightarrow> string"
  largeDigitsToNumber :: "nat \<Rightarrow> nat option"

definition digitChar :: "nat \<Rightarrow> char" where
  "digitChar n = ''0123456789'' ! (n mod 10)"

fun decimalDigits :: "nat \<Rightarrow> string" where
  "decimalDigits n =
     (if n < 10 then [digitChar n] else decimalDigits (n div 10) @ [digitChar (n mod 10)])"

declare decimalDigits.simps [simp del]

text \<open>\<^verbatim>\<open>eventId.toString()\<close>.\<close>

definition numberToString :: "js_runtime \<Rightarrow> nat \<Rightarrow> string" where
  "numberToString rt n =
     (if n \<le> MAX_SAFE_INTEGER then decimalDigits n else largeNumberToString rt n)"

definition isDigit :: "char \<Rightarrow> bool" where
  "isDigit c = (c \<in> set ''0123456789'')"

definition digitValue :: "char \<Rightarrow> nat" where
  "digitValue c = of_char c - 48"

text \<open>
  \<^verbatim>\<open>parseInt\<close> on a string that starts with a decimal digit reads the digits up to the
  first other character. \<open>None\<close> stands for \<^verbatim>\<open>NaN\<close>; leading white space, signs and
  the \<^verbatim>\<open>0x\<close> prefix, which \<^verbatim>\<open>parseInt\<close> also accepts, do not occur in the values the
  client writes and are not modelled.
\<close>

definition parseInt :: "js_runtime \<Rightarrow> string \<Rightarrow> nat option" where
  "parseInt rt v =
     (case takeWhile isDigit v of
        [] \<Rightarrow> None
      | ds \<Rightarrow>
          (let n = foldl (\<lambda>acc c. 10 * acc + digitValue c) 0 ds in
             if n \<le> MAX_SAFE_INTEGER then Some n else largeDigitsToNumber rt n))"

definition lastProcessedEventKey :: "string \<Rightarrow> string" where
  "lastProcessedEventKey hubId = ''hub:'' @ hubId @ '':last-hub-event-id''"

definition setLastProcessedEvent :: "js_runtime \<Rightarrow> string \<Rightarrow> nat \<Rightarrow> redis \<Rightarrow> redis" where
  "setLastProcessedEvent rt hubId eventId client =
     client(lastProcessedEventKey hubId \<mapsto> numberToString rt eventId)"

text \<open>The stored string is tested for truthiness: a missing key and the empty string give 0.\<close>

definition getLastProcessedEvent :: "js_runtime \<Rightarrow> string \<Rightarrow> redis \<Rightarrow> nat option" where
  "getLastProcessedEvent rt hubId client =
     (case client (lastProcessedEventKey hubId) of
        None \<Rightarrow> Some 0
      | Some eventId \<Rightarrow> (if eventId = [] then Some 0 else parseInt rt eventId))"

section \<open>\<^verbatim>\<open>src/shuttle/messageProcessor.ts\<close>\<close>

datatype operation = Merge | Delete | Prune | Revoke

text \<open>A row of the \<^verbatim>\<open>messages\<close> table (\<^verbatim>\<open>MessagesTable\<close> in \<^verbatim>\<open>index.d.ts\<close>).\<close>

record message_row =
  row_id :: string
  row_fid :: nat
  row_type :: message_type
  row_timestamp :: "date js_opt"
  row_hashScheme :: nat
  row_signatureScheme :: nat
  row_hash :: bytes
  row_signer :: bytes
  row_raw :: bytes
  row_body :: message_body_json
  row_deletedAt :: "date option"
  row_prunedAt :: "date option"
  row_revokedAt :: "date option"

text \<open>
  The table is the list of its rows, new rows at the end. The conflict target
  \<^verbatim>\<open>(hash, fid, type)\<close> is the key of a row.
\<close>

type_synonym messages_table = "message_row list"

definition conflictKey :: "message_row \<Rightarrow> bytes \<times> nat \<times> message_type" where
  "conflictKey r = (row_hash r, row_fid r, row_type r)"

definition lookupRow :: "bytes \<times> nat \<times> message_type \<Rightarrow> messages_table \<Rightarrow> message_row option" where
  "lookupRow k t = find (\<lambda>r. conflictKey r = k) t"

text \<open>
  What one call draws from outside: the instant \<^verbatim>\<open>new Date()\<close> returns and the id the
  table's default generates for an inserted row.
\<close>

record call_env =
  now :: date
  generatedId :: string

record op_data =
  deletedAt :: "date option"
  prunedAt :: "date option"
  revokedAt :: "date option"

fun opData :: "call_env \<Rightarrow> operation \<Rightarrow> op_data" where
  "opData env Merge = \<lparr>deletedAt = None, prunedAt = None, revokedAt = None\<rparr>"
| "opData env Delete = \<lparr>deletedAt = Some (now env), prunedAt = None, revokedAt = None\<rparr>"
| "opData env Prune = \<lparr>deletedAt = None, prunedAt = Some (now env), revokedAt = None\<rparr>"
| "opData env Revoke = \<lparr>deletedAt = None, prunedAt = None, revokedAt = Some (now env)\<rparr>"

text \<open>
  The argument of \<^verbatim>\<open>values({...})\<close>: building it evaluates
  \<^verbatim>\<open>farcasterTimeToDate(message.data.timestamp)\<close>, which may throw. The timestamp of
  a decoded \<^verbatim>\<open>MessageData\<close> is a number, so the function is called on a defined value.
\<close>

definition insertValues ::
  "sdk \<Rightarrow> call_env \<Rightarrow> message \<Rightarrow> message_data \<Rightarrow> message_body_json \<Rightarrow> op_data \<Rightarrow> error + message_row" where
  "insertValues s env m d body od =
     (case farcasterTimeToDate s (Defined (md_timestamp d)) of
        Inl e \<Rightarrow> Inl e
      | Inr ts \<Rightarrow>
          Inr \<lparr>row_id = generatedId env,
               row_fid = md_fid d,
               row_type = md_type d,
               row_timestamp = ts,
               row_hashScheme = msg_hashScheme m,
               row_signatureScheme = msg_signatureScheme m,
               row_hash = msg_hash m,
               row_signer = msg_signer m,
               row_raw = encode s m,
               row_body = body,
               row_deletedAt = deletedAt od,
               row_prunedAt = prunedAt od,
               row_revokedAt = revokedAt od\<rparr>)"

text \<open>The \<^verbatim>\<open>where\<close> clause of the conflict update: the six disjuncts in the source's order.\<close>

definition lifecycleChanged :: "message_row \<Rightarrow> message_row \<Rightarrow> bool" where
  "lifecycleChanged excluded messages =
     ((row_deletedAt excluded \<noteq> None \<and> row_deletedAt messages = None) \<or>
      (row_deletedAt excluded = None \<and> row_deletedAt messages \<noteq> None) \<or>
      (row_prunedAt excluded \<noteq> None \<and> row_prunedAt messages = None) \<or>
      (row_prunedAt excluded = None \<and> row_prunedAt messages \<noteq> None) \<or>
      (row_revokedAt excluded \<noteq> None \<and> row_revokedAt messages = None) \<or>
      (row_revokedAt excluded = None \<and> row_revokedAt messages \<noteq> None))"

text \<open>\<^verbatim>\<open>doUpdateSet\<close>: the six columns the conflict update assigns.\<close>

definition doUpdateSet :: "message_row \<Rightarrow> message_row \<Rightarrow> message_row" where
  "doUpdateSet excluded messages =
     messages\<lparr>row_signatureScheme := row_signatureScheme excluded,
              row_signer := row_signer excluded,
              row_raw := row_raw excluded,
              row_deletedAt := row_deletedAt excluded,
              row_prunedAt := row_prunedAt excluded,
              row_revokedAt := row_revokedAt excluded\<rparr>"

text \<open>
  \<^verbatim>\<open>insert ... on conflict (hash, fid, type) do update set ... where ... returning id\<close>.
  The result is the returned row, \<open>None\<close> when no row was written.
\<close>

fun insertOnConflict :: "message_row \<Rightarrow> messages_table \<Rightarrow> string option \<times> messages_table" where
  "insertOnConflict excluded [] = (Some (row_id excluded), [excluded])"
| "insertOnConflict excluded (r # rs) =
     (if conflictKey r = conflictKey excluded then
        (if lifecycleChanged excluded r then (Some (row_id r), doUpdateSet excluded r # rs)
         else (None, r # rs))
      else (case insertOnConflict excluded rs of (result, rs') \<Rightarrow> (result, r # rs')))"

definition storeMessage ::
  "sdk \<Rightarrow> call_env \<Rightarrow> message \<Rightarrow> operation \<Rightarrow> messages_table \<Rightarrow> error + bool \<times> messages_table" where
  "storeMessage s env m operation trx =
     (case validateMessage s m of
        Some err \<Rightarrow> Inl (InvalidMessage err)
      | None \<Rightarrow>
          (case msg_data m of
             None \<Rightarrow> Inl MessageDataMissing
           | Some d \<Rightarrow>
               (case convertProtobufMessageBodyToJson s m of
                  Inl e \<Rightarrow> Inl e
                | Inr body \<Rightarrow>
                    (case insertValues s env m d body (opData env operation) of
                       Inl e \<Rightarrow> Inl e
                     | Inr excluded \<Rightarrow>
                         (case insertOnConflict excluded trx of
                            (result, trx') \<Rightarrow> Inr (result \<noteq> None, trx'))))))"

text \<open>Repeated application of the same message, one environment per call, stopping at the first throw.\<close>

fun storeMessageRepeatedly ::
  "sdk \<Rightarrow> call_env list \<Rightarrow> message \<Rightarrow> operation \<Rightarrow> messages_table \<Rightarrow> error + messages_table" where
  "storeMessageRepeatedly s [] m operation trx = Inr trx"
| "storeMessageRepeatedly s (env # envs) m operation trx =
     (case storeMessage s env m operation trx of
        Inl e \<Rightarrow> Inl e
      | Inr (result, trx') \<Rightarrow> storeMessageRepeatedly s envs m operation trx')"

text \<open>The tables that \<^verbatim>\<open>storeMessage\<close> alone can build, starting from the empty table.\<close>

inductive storedOnly :: "sdk \<Rightarrow> messages_table \<Rightarrow> bool" for s :: sdk where
  storedOnly_empty: "storedOnly s []"
| storedOnly_store:
    "storedOnly s trx \<Longrightarrow> storeMessage s env m operation trx = Inr (result, trx') \<Longrightarrow> storedOnly s trx'"

definition atMostOneLifecycle :: "message_row \<Rightarrow> bool" where
  "atMostOneLifecycle r =
     (length (filter (\<lambda>c. c \<noteq> None) [row_deletedAt r, row_prunedAt r, row_revokedAt r]) \<le> 1)"

section \<open>\<^verbatim>\<open>src/shuttle/hubEventProcessor.ts\<close>\<close>

datatype hub_event_type =
    MERGE_MESSAGE | PRUNE_MESSAGE | REVOKE_MESSAGE | MERGE_USERNAME_PROOF | MERGE_ON_CHAIN_EVENT
  | OTHER_EVENT_TYPE nat

record merge_message_body =
  mmb_message :: "message option"
  mmb_deletedMessages :: "message list"

record hub_event =
  he_type :: hub_event_type
  he_id :: nat
  he_mergeMessageBody :: "merge_message_body option"

text \<open>
  Modelled from the spec: the type guard \<^verbatim>\<open>isMergeMessageHubEvent\<close> of the hub SDK is
  imported, not defined, by the shuttle. The specification's dispatcher says "if the
  event is merge-message, extract the inner signed message": the guard holds for an
  event of type merge-message that carries a merge body with a message.
\<close>

definition isMergeMessageHubEvent :: "hub_event \<Rightarrow> bool" where
  "isMergeMessageHubEvent event =
     (he_type event = MERGE_MESSAGE \<and>
      (case he_mergeMessageBody event of
         None \<Rightarrow> False
       | Some body \<Rightarrow> mmb_message body \<noteq> None))"

text \<open>
  The caller's \<^verbatim>\<open>MessageHandler.handleMessageMerge(message, txn, operation, wasMissed)\<close>.
  It may write to the transaction it is given and keeps a state \<open>'h\<close> of its own, which
  a rollback does not restore; it returns the transaction's table or raises.
\<close>

type_synonym 'h message_handler =
  "message \<Rightarrow> messages_table \<Rightarrow> operation \<Rightarrow> bool \<Rightarrow> 'h \<Rightarrow> 'h \<times> (error + messages_table)"

text \<open>
  The state the process runs in: the \<^verbatim>\<open>messages\<close> table, the Redis keyspace that holds
  the checkpoints, and the handler's own state. \<^verbatim>\<open>HubEventProcessor\<close> is handed the
  database and the handler only.
\<close>

record 'h shuttle =
  sh_db :: messages_table
  sh_redis :: redis
  sh_handler :: 'h

text \<open>
  \<^verbatim>\<open>db.transaction().execute(callback)\<close> (Kysely's \<^verbatim>\<open>TransactionBuilder.execute\<close>): begin,
  run the callback on the transaction, commit; when the callback throws, roll back to
  the table as it was and rethrow.
\<close>

definition transaction_execute ::
  "(messages_table \<Rightarrow> 'h \<Rightarrow> 'h \<times> (error + messages_table)) \<Rightarrow> messages_table \<Rightarrow> 'h
     \<Rightarrow> 'h \<times> error option \<times> messages_table" where
  "transaction_execute callback db h =
     (case callback db h of
        (h', Inl e) \<Rightarrow> (h', Some e, db)
      | (h', Inr trx) \<Rightarrow> (h', None, trx))"

definition processMergeMessage ::
  "sdk \<Rightarrow> call_env \<Rightarrow> message \<Rightarrow> 'h message_handler \<Rightarrow> bool \<Rightarrow> 'h shuttle \<Rightarrow> error option \<times> 'h shuttle" where
  "processMergeMessage s env m handleMessageMerge wasMissed st =
     (case transaction_execute
             (\<lambda>trx h.
                case storeMessage s env m Merge trx of
                  Inl e \<Rightarrow> (h, Inl e)
                | Inr (result, trx') \<Rightarrow> handleMessageMerge m trx' Merge wasMissed h)
             (sh_db st) (sh_handler st) of
        (h', thrown, db') \<Rightarrow> (thrown, st\<lparr>sh_db := db', sh_handler := h'\<rparr>))"

text \<open>
  \<^verbatim>\<open>processHubEvent\<close>: only a merge-message event is processed, any other event returns
  at once. The guard has checked that the body and its message are there.
\<close>

definition processHubEvent ::
  "sdk \<Rightarrow> call_env \<Rightarrow> hub_event \<Rightarrow> 'h message_handler \<Rightarrow> 'h shuttle \<Rightarrow> error option \<times> 'h shuttle" where
  "processHubEvent s env event handler st =
     (if isMergeMessageHubEvent event then
        (case he_mergeMessageBody event of
           None \<Rightarrow> (None, st)
         | Some body \<Rightarrow>
             (case mmb_message body of
                None \<Rightarrow> (None, st)
              | Some mergedMessage \<Rightarrow> processMergeMessage s env mergedMessage handler False st))
      else (None, st))"

definition handleMissingMessage ::
  "sdk \<Rightarrow> call_env \<Rightarrow> message \<Rightarrow> 'h message_handler \<Rightarrow> 'h shuttle \<Rightarrow> error option \<times> 'h shuttle" where
  "handleMissingMessage s env m handler st = processMergeMessage s env m handler True st"

section \<open>\<^verbatim>\<open>src/shuttle/messageReconciliation.ts\<close>\<close>
















section \<open>Notions used in the statements\<close>

text \<open>The key under which \<^verbatim>\<open>storeMessage\<close> stores a message whose data section is \<open>d\<close>.\<close>

definition messageKey :: "message \<Rightarrow> message_data \<Rightarrow> bytes \<times> nat \<times> message_type" where
  "messageKey m d = (msg_hash m, md_fid d, md_type d)"

definition rowLifecycle :: "message_row \<Rightarrow> op_data" where
  "rowLifecycle r =
     \<lparr>deletedAt = row_deletedAt r, prunedAt = row_prunedAt r, revokedAt = row_revokedAt r\<rparr>"

definition isLive :: "message_row \<Rightarrow> bool" where
  "isLive r = (row_deletedAt r = None \<and> row_prunedAt r = None \<and> row_revokedAt r = None)"

text \<open>
  The operation disagrees with a stored row when some lifecycle column is set in the
  row and not selected by the operation, or selected and not set.
\<close>

definition operationDisagrees :: "operation \<Rightarrow> message_row \<Rightarrow> bool" where
  "operationDisagrees operation r =
     ((row_deletedAt r \<noteq> None) \<noteq> (operation = Delete) \<or>
      (row_prunedAt r \<noteq> None) \<noteq> (operation = Prune) \<or>
      (row_revokedAt r \<noteq> None) \<noteq> (operation = Revoke))"







section \<open>Worked examples\<close>

text \<open>
  A stand-in for the hub SDK: every message validates, a Farcaster time is seconds
  since 2021-01-01, and the base58 encoder is replaced by a tagged hex string.
\<close>

definition exampleSdk :: sdk where
  "exampleSdk =
     \<lparr>validateMessage = (\<lambda>m. None),
      fromFarcasterTime = (\<lambda>t. Inr (int t * 1000 + 1609459200000)),
      bytesToBase58 = (\<lambda>bs. Inr (''base58:'' @ toHexString bs)),
      encode = (\<lambda>m. msg_hash m)\<rparr>"

definition exampleData :: message_data where
  "exampleData =
     \<lparr>md_type = CAST_ADD, md_fid = 42, md_timestamp = 100,
      md_castAddBody =
        Some \<lparr>cab_embeds = [\<lparr>em_url = Some ''https://x'', em_castId = None\<rparr>],
              cab_mentions = [1, 2], cab_mentionsPositions = [0, 6], cab_text = ''hello'',
              cab_parentCastId = None, cab_parentUrl = None\<rparr>,
      md_castRemoveBody = None, md_reactionBody = None, md_linkBody = None,
      md_verificationAddAddressBody = None, md_verificationRemoveBody = None,
      md_userDataBody = None, md_usernameProofBody = None\<rparr>"

definition exampleMessage :: message where
  "exampleMessage =
     \<lparr>msg_data = Some exampleData, msg_hash = [1, 2, 3], msg_hashScheme = 1,
      msg_signatureScheme = 1, msg_signer = [9]\<rparr>"

definition exampleBody :: message_body_json where
  "exampleBody = CastAddBodyJson [''https://x''] [1, 2] [0, 6] ''hello'' None"

text \<open>The row the first merge of the example message inserts.\<close>

definition exampleRow :: message_row where
  "exampleRow =
     \<lparr>row_id = ''id-1'', row_fid = 42, row_type = CAST_ADD,
      row_timestamp = Defined 1609459300000, row_hashScheme = 1, row_signatureScheme = 1,
      row_hash = [1, 2, 3], row_signer = [9], row_raw = [1, 2, 3], row_body = exampleBody,
      row_deletedAt = None, row_prunedAt = None, row_revokedAt = None\<rparr>"

definition exampleEnv :: "nat \<Rightarrow> call_env" where
  "exampleEnv n = \<lparr>now = 1000 * int n, generatedId = ''id-'' @ decimalDigits n\<rparr>"

definition exampleVerificationData :: "protocol \<Rightarrow> bytes \<Rightarrow> message_data" where
  "exampleVerificationData p address =
     exampleData
       \<lparr>md_type := VERIFICATION_ADD_ETH_ADDRESS, md_castAddBody := None,
        md_verificationAddAddressBody :=
          Some \<lparr>vab_address = address, vab_claimSignature = [171], vab_blockHash = [205],
                vab_protocol = p\<rparr>\<rparr>"

definition exampleVerification :: "protocol \<Rightarrow> bytes \<Rightarrow> message" where
  "exampleVerification p address =
     \<lparr>msg_data = Some (exampleVerificationData p address),
      msg_hash = [4, 5, 6], msg_hashScheme = 1, msg_signatureScheme = 1, msg_signer = [9]\<rparr>"

definition exampleAddress :: bytes where
  "exampleAddress = [1, 2, 3, 4, 5, 6, 7, 8, 9, 10, 11, 12, 13, 14, 15, 16, 17, 18, 19, 20]"

definition deletedRow :: message_row where
  "deletedRow = exampleRow\<lparr>row_deletedAt := Some 2000\<rparr>"

definition prunedRow :: message_row where
  "prunedRow = exampleRow\<lparr>row_prunedAt := Some 3000\<rparr>"

text \<open>The stand-in SDK with a time conversion that fails.\<close>

definition failingTimeSdk :: sdk where
  "failingTimeSdk = exampleSdk\<lparr>fromFarcasterTime := (\<lambda>t. Inl (HubError ''bad time''))\<rparr>"

definition exampleEvent :: "hub_event_type \<Rightarrow> nat \<Rightarrow> hub_event" where
  "exampleEvent t n =
     \<lparr>he_type = t, he_id = n,
      he_mergeMessageBody = Some \<lparr>mmb_message = Some exampleMessage, mmb_deletedMessages = []\<rparr>\<rparr>"

text \<open>Two handlers with a counter as their state: one returns, one raises.\<close>

definition countingHandler :: "nat message_handler" where
  "countingHandler m trx operation wasMissed h = (Suc h, Inr trx)"

definition raisingHandler :: "nat message_handler" where
  "raisingHandler m trx operation wasMissed h = (Suc h, Inl (HandlerError ''handler failed''))"

text \<open>
  A stand-in for the runtime above the safe range, right at the one large number the
  examples use: \<^verbatim>\<open>(1e21).toString()\<close> is \<^verbatim>\<open>"1e+21"\<close>.
\<close>

definition exampleRuntime :: js_runtime where
  "exampleRuntime =
     \<lparr>largeNumberToString = (\<lambda>n. ''1e+21''), largeDigitsToNumber = (\<lambda>n. Some n)\<rparr>"

definition exampleShuttle :: "messages_table \<Rightarrow> nat shuttle" where
  "exampleShuttle db =
     \<lparr>sh_db = db, sh_redis = setLastProcessedEvent exampleRuntime ''hub-1'' 100 Map.empty,
      sh_handler = 0\<rparr>"











section \<open>The upsert\<close>

lemma conflictKey_doUpdateSet: "conflictKey (doUpdateSet x r) = conflictKey r"
  by (simp add: conflictKey_def doUpdateSet_def)

lemma insertOnConflict_new:
  "lookupRow (conflictKey x) t = None \<Longrightarrow> insertOnConflict x t = (Some (row_id x), t @ [x])"
  by (induction t) (auto simp: lookupRow_def split: if_splits)

lemma insertOnConflict_same:
  "lookupRow (conflictKey x) t = Some r \<Longrightarrow> \<not> lifecycleChanged x r \<Longrightarrow> insertOnConflict x t = (None, t)"
  by (induction t) (auto simp: lookupRow_def split: if_splits)

lemma insertOnConflict_changed:
  "lookupRow (conflictKey x) t = Some r \<Longrightarrow> lifecycleChanged x r \<Longrightarrow>
     fst (insertOnConflict x t) = Some (row_id r) \<and>
     lookupRow (conflictKey x) (snd (insertOnConflict x t)) = Some (doUpdateSet x r)"
  by (induction t) (auto simp: lookupRow_def conflictKey_doUpdateSet split: if_splits prod.splits)

lemma lookupRow_append_new:
  "lookupRow (conflictKey x) t = None \<Longrightarrow> lookupRow (conflictKey x) (t @ [x]) = Some x"
  by (induction t) (auto simp: lookupRow_def split: if_splits)

lemma insertOnConflict_other:
  "k \<noteq> conflictKey x \<Longrightarrow> lookupRow k (snd (insertOnConflict x t)) = lookupRow k t"
  by (induction t) (auto simp: lookupRow_def conflictKey_doUpdateSet split: if_splits prod.splits)

lemma insertOnConflict_rows:
  "r' \<in> set (snd (insertOnConflict x t)) \<Longrightarrow>
     r' \<in> set t \<or> r' = x \<or> (\<exists>r \<in> set t. lifecycleChanged x r \<and> r' = doUpdateSet x r)"
  by (induction t arbitrary: r') (auto split: if_splits prod.splits)

lemma storeMessage_Inr:
  "storeMessage s env m operation trx = Inr (result, trx') \<longleftrightarrow>
     (\<exists>d body x. validateMessage s m = None \<and> msg_data m = Some d \<and>
        convertProtobufMessageBodyToJson s m = Inr body \<and>
        insertValues s env m d body (opData env operation) = Inr x \<and>
        result = (fst (insertOnConflict x trx) \<noteq> None) \<and> trx' = snd (insertOnConflict x trx))"
  by (auto simp: storeMessage_def split: option.splits sum.splits prod.splits)

lemma insertValues_Inr:
  "insertValues s env m d body od = Inr x \<longleftrightarrow>
     (\<exists>ts. fromFarcasterTime s (md_timestamp d) = Inr ts \<and>
        x = \<lparr>row_id = generatedId env, row_fid = md_fid d, row_type = md_type d,
             row_timestamp = Defined ts, row_hashScheme = msg_hashScheme m,
             row_signatureScheme = msg_signatureScheme m, row_hash = msg_hash m,
             row_signer = msg_signer m, row_raw = encode s m, row_body = body,
             row_deletedAt = deletedAt od, row_prunedAt = prunedAt od,
             row_revokedAt = revokedAt od\<rparr>)"
  by (auto simp: insertValues_def split: sum.splits)



lemmas example_defs =
  exampleSdk_def exampleEnv_def exampleMessage_def exampleData_def exampleRow_def exampleBody_def
  digitChar_def decimalDigits.simps

lemmas store_defs =
  storeMessage_def convertProtobufMessageBodyToJson_def convertCastAdd_def insertValues_def
  conflictKey_def lifecycleChanged_def doUpdateSet_def

lemma insertValues_key:
  "insertValues s env m d body od = Inr x \<Longrightarrow> conflictKey x = messageKey m d"
  by (auto simp: insertValues_Inr conflictKey_def messageKey_def)

lemma insertValues_lifecycle:
  "insertValues s env m d body od = Inr x \<Longrightarrow> rowLifecycle x = od"
  by (auto simp: insertValues_Inr rowLifecycle_def)

lemma insertValues_env:
  "insertValues s env m d body od = Inr x \<Longrightarrow> \<exists>x'. insertValues s env' m d body od' = Inr x'"
  by (auto simp: insertValues_Inr)

lemma storeMessage_succeeds_again:
  "storeMessage s env m operation trx = Inr (result, trx') \<Longrightarrow>
     \<exists>result2 trx2. storeMessage s env' m operation' trx'' = Inr (result2, trx2)"
proof -
  assume "storeMessage s env m operation trx = Inr (result, trx')"
  then obtain d body x where
    a: "validateMessage s m = None" "msg_data m = Some d"
      "convertProtobufMessageBodyToJson s m = Inr body"
      "insertValues s env m d body (opData env operation) = Inr x"
    by (auto simp: storeMessage_Inr)
  from insertValues_env [OF a(4)] obtain x' where
    "insertValues s env' m d body (opData env' operation') = Inr x'" by blast
  with a(1-3) show ?thesis
    by (simp add: storeMessage_def split: prod.splits)
qed

lemma lifecycleChanged_iff:
  "rowLifecycle x = opData env operation \<Longrightarrow> lifecycleChanged x r = operationDisagrees operation r"
  by (cases operation) (auto simp: lifecycleChanged_def operationDisagrees_def rowLifecycle_def)

text \<open>The three outcomes of a successful store, by the state of the table before.\<close>

lemma storeMessage_inserted:
  assumes "storeMessage s env m operation trx = Inr (result, trx')" "msg_data m = Some d"
    "lookupRow (messageKey m d) trx = None"
  shows "result \<and> (\<exists>x. trx' = trx @ [x] \<and> lookupRow (messageKey m d) trx' = Some x \<and>
            rowLifecycle x = opData env operation \<and>
            (\<exists>ts. fromFarcasterTime s (md_timestamp d) = Inr ts \<and> row_timestamp x = Defined ts))"
proof -
  from assms(1,2) obtain body x where
    x: "insertValues s env m d body (opData env operation) = Inr x"
    and r: "result = (fst (insertOnConflict x trx) \<noteq> None)" "trx' = snd (insertOnConflict x trx)"
    by (auto simp: storeMessage_Inr)
  have k: "conflictKey x = messageKey m d" using x by (rule insertValues_key)
  have "insertOnConflict x trx = (Some (row_id x), trx @ [x])"
    using insertOnConflict_new [of x trx] assms(3) k by simp
  moreover have "lookupRow (messageKey m d) (trx @ [x]) = Some x"
    using assms(3) k lookupRow_append_new [of x trx] by simp
  moreover have "\<exists>ts. fromFarcasterTime s (md_timestamp d) = Inr ts \<and> row_timestamp x = Defined ts"
    using x by (auto simp: insertValues_Inr)
  ultimately show ?thesis using r insertValues_lifecycle [OF x] by simp
qed

lemma storeMessage_updated:
  assumes "storeMessage s env m operation trx = Inr (result, trx')" "msg_data m = Some d"
    "lookupRow (messageKey m d) trx = Some r" "operationDisagrees operation r"
  shows "result \<and> (\<exists>x. lookupRow (messageKey m d) trx' = Some x \<and>
            rowLifecycle x = opData env operation \<and> row_timestamp x = row_timestamp r \<and>
            row_id x = row_id r \<and> row_body x = row_body r \<and> row_raw x = encode s m \<and>
            row_signer x = msg_signer m \<and> row_signatureScheme x = msg_signatureScheme m)"
proof -
  from assms(1,2) obtain body x where
    x: "insertValues s env m d body (opData env operation) = Inr x"
    and r: "result = (fst (insertOnConflict x trx) \<noteq> None)" "trx' = snd (insertOnConflict x trx)"
    by (auto simp: storeMessage_Inr)
  have k: "conflictKey x = messageKey m d" using x by (rule insertValues_key)
  have l: "rowLifecycle x = opData env operation" using x by (rule insertValues_lifecycle)
  have c: "lifecycleChanged x r" using assms(4) lifecycleChanged_iff [OF l] by simp
  have "fst (insertOnConflict x trx) = Some (row_id r) \<and>
        lookupRow (conflictKey x) (snd (insertOnConflict x trx)) = Some (doUpdateSet x r)"
    using insertOnConflict_changed [of x trx r] assms(3) k c by simp
  moreover have "rowLifecycle (doUpdateSet x r) = opData env operation"
    using l by (simp add: rowLifecycle_def doUpdateSet_def)
  moreover have "row_raw x = encode s m \<and> row_signer x = msg_signer m \<and>
      row_signatureScheme x = msg_signatureScheme m"
    using x by (auto simp: insertValues_Inr)
  ultimately show ?thesis using r k by (simp add: doUpdateSet_def)
qed

lemma storeMessage_noop:
  assumes "storeMessage s env m operation trx = Inr (result, trx')" "msg_data m = Some d"
    "lookupRow (messageKey m d) trx = Some r" "\<not> operationDisagrees operation r"
  shows "\<not> result \<and> trx' = trx"
proof -
  from assms(1,2) obtain body x where
    x: "insertValues s env m d body (opData env operation) = Inr x"
    and r: "result = (fst (insertOnConflict x trx) \<noteq> None)" "trx' = snd (insertOnConflict x trx)"
    by (auto simp: storeMessage_Inr)
  have k: "conflictKey x = messageKey m d" using x by (rule insertValues_key)
  have l: "rowLifecycle x = opData env operation" using x by (rule insertValues_lifecycle)
  have c: "\<not> lifecycleChanged x r" using assms(4) lifecycleChanged_iff [OF l] by simp
  have "insertOnConflict x trx = (None, trx)"
    using insertOnConflict_same [of x trx r] assms(3) k c by simp
  then show ?thesis using r by simp
qed

lemma agrees_iff:
  "\<not> operationDisagrees operation r \<longleftrightarrow>
     (row_deletedAt r \<noteq> None) = (operation = Delete) \<and>
     (row_prunedAt r \<noteq> None) = (operation = Prune) \<and>
     (row_revokedAt r \<noteq> None) = (operation = Revoke)"
  by (auto simp: operationDisagrees_def)

lemma opData_agrees:
  "rowLifecycle x = opData env operation \<Longrightarrow> \<not> operationDisagrees operation x"
  by (cases operation) (auto simp: operationDisagrees_def rowLifecycle_def)

text \<open>After any successful store the row of the message is there and agrees with the operation.\<close>

lemma storeMessage_row_after:
  assumes "storeMessage s env m operation trx = Inr (result, trx')" "msg_data m = Some d"
  shows "\<exists>x. lookupRow (messageKey m d) trx' = Some x \<and> \<not> operationDisagrees operation x \<and>
           (result \<longrightarrow> rowLifecycle x = opData env operation)"
proof (cases "lookupRow (messageKey m d) trx")
  case None
  from storeMessage_inserted [OF assms None] show ?thesis
    by (auto dest: opData_agrees)
next
  case (Some r)
  show ?thesis
  proof (cases "operationDisagrees operation r")
    case True
    from storeMessage_updated [OF assms Some True] show ?thesis
      by (auto dest: opData_agrees)
  next
    case False
    from storeMessage_noop [OF assms Some False] Some False show ?thesis by auto
  qed
qed

lemma isLive_agrees: "isLive r \<longleftrightarrow> \<not> operationDisagrees Merge r"
  by (auto simp: isLive_def operationDisagrees_def)

section \<open>The store: idempotence, results and lifecycle\<close>

lemma storeMessage_data:
  "storeMessage s env m operation trx = Inr (result, trx') \<Longrightarrow> \<exists>d. msg_data m = Some d"
  by (auto simp: storeMessage_Inr)

lemma merge_again_noop:
  assumes "storeMessage s env m operation trx = Inr (result, trx')"
  shows "storeMessage s env' m operation trx' = Inr (False, trx')"
proof -
  from storeMessage_data [OF assms] obtain d where d: "msg_data m = Some d" ..
  from storeMessage_row_after [OF assms d] obtain x where
    x: "lookupRow (messageKey m d) trx' = Some x" "\<not> operationDisagrees operation x" by blast
  from storeMessage_succeeds_again [OF assms, of env' operation trx'] obtain result2 trx2 where
    s2: "storeMessage s env' m operation trx' = Inr (result2, trx2)" by blast
  from storeMessage_noop [OF s2 d x] s2 show ?thesis by simp
qed

lemma storeMessageRepeatedly_fixed:
  "\<forall>env. storeMessage s env m operation trx = Inr (False, trx) \<Longrightarrow>
     storeMessageRepeatedly s envs m operation trx = Inr trx"
  by (induction envs) auto

text \<open>
  Claim C1. A merge of a message whose row is already live changes nothing and reports
  no row: after one successful merge, every further merge of the same message returns
  \<open>False\<close> and leaves the table as it is, so any number \<open>N \<ge> 1\<close> of merges leaves
  the table the first merge left. A merge that throws throws again, with no write.
\<close>

theorem merge_idempotent:
  "(storeMessage s env m Merge trx = Inr (result, trx') \<longrightarrow>
      storeMessage s env' m Merge trx' = Inr (False, trx')) \<and>
   (msg_data m = Some d \<longrightarrow> lookupRow (messageKey m d) trx = Some r \<longrightarrow> isLive r \<longrightarrow>
      storeMessage s env m Merge trx = Inr (result, trx') \<longrightarrow> \<not> result \<and> trx' = trx) \<and>
   storeMessageRepeatedly s (env # envs) m Merge trx = storeMessageRepeatedly s [env] m Merge trx"
proof (intro conjI impI)
  assume "storeMessage s env m Merge trx = Inr (result, trx')"
  then show "storeMessage s env' m Merge trx' = Inr (False, trx')" by (rule merge_again_noop)
next
  assume "msg_data m = Some d" "lookupRow (messageKey m d) trx = Some r" "isLive r"
    "storeMessage s env m Merge trx = Inr (result, trx')"
  then show "\<not> result" "trx' = trx"
    using storeMessage_noop [of s env m Merge trx result trx' d r] by (simp_all add: isLive_agrees)
next
  show "storeMessageRepeatedly s (env # envs) m Merge trx = storeMessageRepeatedly s [env] m Merge trx"
  proof (cases "storeMessage s env m Merge trx")
    case (Inl e)
    then show ?thesis by simp
  next
    case (Inr p)
    obtain res t1 where p: "p = (res, t1)" by (cases p)
    have "\<forall>env'. storeMessage s env' m Merge t1 = Inr (False, t1)"
      using Inr p merge_again_noop by blast
    then have "storeMessageRepeatedly s envs m Merge t1 = Inr t1"
      by (rule storeMessageRepeatedly_fixed)
    then show ?thesis using Inr p by simp
  qed
qed

lemma example_first_merge:
  "storeMessage exampleSdk (exampleEnv 1) exampleMessage Merge [] = Inr (True, [exampleRow])"
  by (simp add: example_defs store_defs)

lemma example_lookup:
  "lookupRow (messageKey exampleMessage exampleData) [exampleRow] = Some exampleRow"
  by (simp add: lookupRow_def messageKey_def conflictKey_def example_defs)

theorem merge_idempotent_witness:
  "storeMessage exampleSdk (exampleEnv 1) exampleMessage Merge [] = Inr (True, [exampleRow]) \<and>
   storeMessage exampleSdk (exampleEnv 2) exampleMessage Merge [exampleRow] = Inr (False, [exampleRow]) \<and>
   msg_data exampleMessage = Some exampleData \<and>
   lookupRow (messageKey exampleMessage exampleData) [exampleRow] = Some exampleRow \<and>
   isLive exampleRow \<and>
   storeMessageRepeatedly exampleSdk [exampleEnv 1, exampleEnv 2, exampleEnv 3] exampleMessage Merge []
     = Inr [exampleRow]"
proof -
  note t = merge_idempotent [of exampleSdk "exampleEnv 1" exampleMessage "[]" True "[exampleRow]"
      "exampleEnv 2" exampleData exampleRow "[exampleEnv 2, exampleEnv 3]"]
  have 1: "storeMessage exampleSdk (exampleEnv 1) exampleMessage Merge [] = Inr (True, [exampleRow])"
    by (rule example_first_merge)
  have 2: "storeMessage exampleSdk (exampleEnv 2) exampleMessage Merge [exampleRow] = Inr (False, [exampleRow])"
    using t 1 by blast
  have "storeMessageRepeatedly exampleSdk [exampleEnv 1, exampleEnv 2, exampleEnv 3] exampleMessage Merge []
     = storeMessageRepeatedly exampleSdk [exampleEnv 1] exampleMessage Merge []"
    using t by blast
  also have "\<dots> = Inr [exampleRow]" using 1 by simp
  finally have 3: "storeMessageRepeatedly exampleSdk [exampleEnv 1, exampleEnv 2, exampleEnv 3]
     exampleMessage Merge [] = Inr [exampleRow]" .
  have 4: "msg_data exampleMessage = Some exampleData" by (simp add: example_defs)
  have 5: "isLive exampleRow" by (simp add: isLive_def example_defs)
  note t' = merge_idempotent [of exampleSdk "exampleEnv 2" exampleMessage "[exampleRow]" False
      "[exampleRow]" "exampleEnv 3" exampleData exampleRow "[]"]
  show ?thesis using 1 2 3 4 5 example_lookup t' by blast
qed

text \<open>
  Claim C2, as amended. \<^verbatim>\<open>storeMessage\<close> returns a boolean: \<open>True\<close> when the row is
  new or when the operation disagrees with the stored row's lifecycle (the row is then
  updated), \<open>False\<close> when the stored row already agrees, in which case the table is
  unchanged. Storing a new row and then storing it again with the same operation
  returns \<open>True\<close> and then \<open>False\<close>.
\<close>

theorem store_result_boolean:
  assumes "storeMessage s env m operation trx = Inr (result, trx')" "msg_data m = Some d"
  shows "result = (case lookupRow (messageKey m d) trx of
                     None \<Rightarrow> True
                   | Some r \<Rightarrow> operationDisagrees operation r) \<and>
         (\<not> result \<longrightarrow> trx' = trx) \<and>
         (lookupRow (messageKey m d) trx = None \<longrightarrow>
            result \<and> storeMessage s env' m operation trx' = Inr (False, trx'))"
proof -
  have a: "result = (case lookupRow (messageKey m d) trx of
                     None \<Rightarrow> True
                   | Some r \<Rightarrow> operationDisagrees operation r)"
    using storeMessage_inserted [OF assms] storeMessage_updated [OF assms] storeMessage_noop [OF assms]
    by (auto split: option.splits)
  have b: "\<not> result \<longrightarrow> trx' = trx"
    using a storeMessage_noop [OF assms] by (auto split: option.splits)
  show ?thesis using a b merge_again_noop [OF assms(1)] by simp
qed

theorem store_result_boolean_witness:
  "storeMessage exampleSdk (exampleEnv 1) exampleMessage Merge [] = Inr (True, [exampleRow]) \<and>
   msg_data exampleMessage = Some exampleData \<and>
   lookupRow (messageKey exampleMessage exampleData) [] = None \<and>
   storeMessage exampleSdk (exampleEnv 2) exampleMessage Merge [exampleRow] = Inr (False, [exampleRow])"
proof -
  have 1: "storeMessage exampleSdk (exampleEnv 1) exampleMessage Merge [] = Inr (True, [exampleRow])"
    by (rule example_first_merge)
  have 2: "msg_data exampleMessage = Some exampleData" by (simp add: example_defs)
  have 3: "lookupRow (messageKey exampleMessage exampleData) [] = None" by (simp add: lookupRow_def)
  show ?thesis using store_result_boolean [OF 1 2, of "exampleEnv 2"] 1 2 3 by simp
qed

text \<open>
  The claim as stated asks for three results. The insert of a new row and the update of
  an existing row return the same value.
\<close>

theorem store_result_three_valued_counterexample:
  "lookupRow (messageKey exampleMessage exampleData) [] = None \<and>
   storeMessage exampleSdk (exampleEnv 1) exampleMessage Merge [] = Inr (True, [exampleRow]) \<and>
   lookupRow (messageKey exampleMessage exampleData) [exampleRow] = Some exampleRow \<and>
   storeMessage exampleSdk (exampleEnv 2) exampleMessage Delete [exampleRow]
     = Inr (True, [exampleRow\<lparr>row_deletedAt := Some 2000\<rparr>])"
proof -
  have "storeMessage exampleSdk (exampleEnv 2) exampleMessage Delete [exampleRow]
     = Inr (True, [exampleRow\<lparr>row_deletedAt := Some 2000\<rparr>])"
    by (simp add: example_defs store_defs)
  then show ?thesis using example_first_merge example_lookup by (simp add: lookupRow_def)
qed


text \<open>
  Claim C3. Merge, then delete (or prune, or revoke), then merge again: after the first
  merge the row is live; after the second step exactly the column of the operation is
  set, to that call's instant, and the other two are null; after the last merge the row
  is live again. Both later steps write.
\<close>

theorem lifecycle_reversible:
  assumes "storeMessage s env1 m Merge trx = Inr (result1, trx1)" "msg_data m = Some d"
    "operation \<noteq> Merge"
  shows "\<exists>trx2 trx3 row1 row2 row3.
           storeMessage s env2 m operation trx1 = Inr (True, trx2) \<and>
           storeMessage s env3 m Merge trx2 = Inr (True, trx3) \<and>
           lookupRow (messageKey m d) trx1 = Some row1 \<and> isLive row1 \<and>
           lookupRow (messageKey m d) trx2 = Some row2 \<and>
           rowLifecycle row2 = opData env2 operation \<and>
           lookupRow (messageKey m d) trx3 = Some row3 \<and> isLive row3"
proof -
  from storeMessage_row_after [OF assms(1,2)] obtain row1 where
    r1: "lookupRow (messageKey m d) trx1 = Some row1" "\<not> operationDisagrees Merge row1" by blast
  have d1: "operationDisagrees operation row1"
    using r1(2) assms(3) by (cases operation) (auto simp: operationDisagrees_def)
  from storeMessage_succeeds_again [OF assms(1), of env2 operation trx1] obtain result2 trx2 where
    s2: "storeMessage s env2 m operation trx1 = Inr (result2, trx2)" by blast
  from storeMessage_updated [OF s2 assms(2) r1(1) d1] obtain row2 where
    r2: "result2" "lookupRow (messageKey m d) trx2 = Some row2"
      "rowLifecycle row2 = opData env2 operation" by blast
  have d2: "operationDisagrees Merge row2"
    using r2(3) assms(3) by (cases operation) (auto simp: operationDisagrees_def rowLifecycle_def)
  from storeMessage_succeeds_again [OF assms(1), of env3 Merge trx2] obtain result3 trx3 where
    s3: "storeMessage s env3 m Merge trx2 = Inr (result3, trx3)" by blast
  from storeMessage_updated [OF s3 assms(2) r2(2) d2] obtain row3 where
    r3: "result3" "lookupRow (messageKey m d) trx3 = Some row3"
      "rowLifecycle row3 = opData env3 Merge" by blast
  have "isLive row3" using r3(3) by (simp add: isLive_def rowLifecycle_def)
  then show ?thesis using r1 s2 r2 s3 r3 by (auto simp: isLive_agrees)
qed

theorem lifecycle_reversible_witness:
  "storeMessage exampleSdk (exampleEnv 1) exampleMessage Merge [] = Inr (True, [exampleRow]) \<and>
   msg_data exampleMessage = Some exampleData \<and> Delete \<noteq> Merge \<and>
   (\<exists>trx2 trx3 row1 row2 row3.
      storeMessage exampleSdk (exampleEnv 2) exampleMessage Delete [exampleRow] = Inr (True, trx2) \<and>
      storeMessage exampleSdk (exampleEnv 3) exampleMessage Merge trx2 = Inr (True, trx3) \<and>
      lookupRow (messageKey exampleMessage exampleData) [exampleRow] = Some row1 \<and> isLive row1 \<and>
      lookupRow (messageKey exampleMessage exampleData) trx2 = Some row2 \<and>
      rowLifecycle row2 = opData (exampleEnv 2) Delete \<and>
      lookupRow (messageKey exampleMessage exampleData) trx3 = Some row3 \<and> isLive row3)"
proof -
  have 1: "storeMessage exampleSdk (exampleEnv 1) exampleMessage Merge [] = Inr (True, [exampleRow])"
    by (rule example_first_merge)
  have 2: "msg_data exampleMessage = Some exampleData" by (simp add: example_defs)
  have 3: "Delete \<noteq> Merge" by simp
  show ?thesis
    using lifecycle_reversible [OF 1 2 3, of "exampleEnv 2" "exampleEnv 3"] 1 2 3 by blast
qed

lemma atMostOne_opData:
  "rowLifecycle x = opData env operation \<Longrightarrow> atMostOneLifecycle x"
  by (cases operation) (auto simp: atMostOneLifecycle_def rowLifecycle_def)

lemma storeMessage_preserves_atMostOne:
  assumes "storeMessage s env m operation trx = Inr (result, trx')"
    "\<forall>r \<in> set trx. atMostOneLifecycle r"
  shows "\<forall>r \<in> set trx'. atMostOneLifecycle r"
proof
  fix r' assume r': "r' \<in> set trx'"
  from assms(1) obtain d body x where
    x: "insertValues s env m d body (opData env operation) = Inr x"
    and t: "trx' = snd (insertOnConflict x trx)"
    by (auto simp: storeMessage_Inr)
  have l: "rowLifecycle x = opData env operation" using x by (rule insertValues_lifecycle)
  from insertOnConflict_rows [of r' x trx] r' t
  consider "r' \<in> set trx" | "r' = x" | r where "r' = doUpdateSet x r" by auto
  then show "atMostOneLifecycle r'"
  proof cases
    case 1
    then show ?thesis using assms(2) by blast
  next
    case 2
    then show ?thesis using l by (simp add: atMostOne_opData)
  next
    case 3
    have "rowLifecycle (doUpdateSet x r) = opData env operation"
      using l by (simp add: rowLifecycle_def doUpdateSet_def)
    then show ?thesis using 3 by (simp add: atMostOne_opData)
  qed
qed

lemma storedOnly_atMostOne: "storedOnly s trx \<Longrightarrow> \<forall>r \<in> set trx. atMostOneLifecycle r"
  by (induction rule: storedOnly.induct) (auto dest: storeMessage_preserves_atMostOne)

text \<open>
  Claim C10. A write of \<^verbatim>\<open>storeMessage\<close> assigns the three lifecycle columns together, to
  the values of the operation, of which at most one is set. After a successful call the
  row of the message has exactly the column of the operation set (none for merge), so
  the other two are null whatever they were; rows with at most one lifecycle column set
  stay so, and every table built by \<^verbatim>\<open>storeMessage\<close> alone has only such rows.
\<close>

theorem lifecycle_columns_assigned_together:
  "(storeMessage s env m operation trx = Inr (result, trx') \<longrightarrow> msg_data m = Some d \<longrightarrow>
      (\<exists>row. lookupRow (messageKey m d) trx' = Some row \<and>
         (result \<longrightarrow> rowLifecycle row = opData env operation) \<and>
         (row_deletedAt row \<noteq> None) = (operation = Delete) \<and>
         (row_prunedAt row \<noteq> None) = (operation = Prune) \<and>
         (row_revokedAt row \<noteq> None) = (operation = Revoke) \<and>
         atMostOneLifecycle row)) \<and>
   (storeMessage s env m operation trx = Inr (result, trx') \<longrightarrow>
      (\<forall>r \<in> set trx. atMostOneLifecycle r) \<longrightarrow> (\<forall>r \<in> set trx'. atMostOneLifecycle r)) \<and>
   (storedOnly s trx \<longrightarrow> (\<forall>r \<in> set trx. atMostOneLifecycle r)) \<and>
   length (filter (\<lambda>c. c \<noteq> None)
      [deletedAt (opData env operation), prunedAt (opData env operation),
       revokedAt (opData env operation)]) \<le> 1"
proof (intro conjI impI)
  assume a: "storeMessage s env m operation trx = Inr (result, trx')" "msg_data m = Some d"
  from storeMessage_row_after [OF a] obtain x where
    x: "lookupRow (messageKey m d) trx' = Some x" "\<not> operationDisagrees operation x"
      "result \<longrightarrow> rowLifecycle x = opData env operation" by blast
  have "atMostOneLifecycle x"
    using x(2) by (cases operation) (auto simp: atMostOneLifecycle_def operationDisagrees_def)
  then show "\<exists>row. lookupRow (messageKey m d) trx' = Some row \<and>
         (result \<longrightarrow> rowLifecycle row = opData env operation) \<and>
         (row_deletedAt row \<noteq> None) = (operation = Delete) \<and>
         (row_prunedAt row \<noteq> None) = (operation = Prune) \<and>
         (row_revokedAt row \<noteq> None) = (operation = Revoke) \<and>
         atMostOneLifecycle row"
    using x by (auto simp: agrees_iff)
next
  assume "storeMessage s env m operation trx = Inr (result, trx')"
    "\<forall>r \<in> set trx. atMostOneLifecycle r"
  then show "\<forall>r \<in> set trx'. atMostOneLifecycle r" by (rule storeMessage_preserves_atMostOne)
next
  assume "storedOnly s trx"
  then show "\<forall>r \<in> set trx. atMostOneLifecycle r" by (rule storedOnly_atMostOne)
next
  show "length (filter (\<lambda>c. c \<noteq> None)
      [deletedAt (opData env operation), prunedAt (opData env operation),
       revokedAt (opData env operation)]) \<le> 1"
    by (cases operation) auto
qed

lemma example_prune_deleted:
  "storeMessage exampleSdk (exampleEnv 3) exampleMessage Prune [deletedRow] = Inr (True, [prunedRow])"
  by (simp add: example_defs store_defs deletedRow_def prunedRow_def)

theorem lifecycle_columns_assigned_together_witness:
  "storeMessage exampleSdk (exampleEnv 3) exampleMessage Prune [deletedRow] = Inr (True, [prunedRow]) \<and>
   msg_data exampleMessage = Some exampleData \<and>
   storedOnly exampleSdk [exampleRow] \<and>
   atMostOneLifecycle exampleRow \<and>
   atMostOneLifecycle deletedRow \<and>
   atMostOneLifecycle prunedRow \<and>
   (\<exists>row. lookupRow (messageKey exampleMessage exampleData) [prunedRow] = Some row \<and>
      rowLifecycle row = opData (exampleEnv 3) Prune \<and> row_deletedAt row = None)"
proof -
  note t = lifecycle_columns_assigned_together [of exampleSdk "exampleEnv 3" exampleMessage Prune
      "[deletedRow]" True "[prunedRow]" exampleData]
  have 1: "storeMessage exampleSdk (exampleEnv 3) exampleMessage Prune [deletedRow] = Inr (True, [prunedRow])"
    by (rule example_prune_deleted)
  have 2: "msg_data exampleMessage = Some exampleData" by (simp add: example_defs)
  have 3: "storedOnly exampleSdk [exampleRow]"
    using storedOnly_store [OF storedOnly_empty example_first_merge] .
  have 4: "atMostOneLifecycle deletedRow"
    by (simp add: atMostOneLifecycle_def deletedRow_def example_defs)
  then have "\<forall>r \<in> set [deletedRow]. atMostOneLifecycle r" by simp
  then have "\<forall>r \<in> set [prunedRow]. atMostOneLifecycle r" using t 1 by blast
  then have 5: "atMostOneLifecycle prunedRow" by simp
  from t 1 2 obtain row where
    "lookupRow (messageKey exampleMessage exampleData) [prunedRow] = Some row"
    "rowLifecycle row = opData (exampleEnv 3) Prune" "(row_deletedAt row \<noteq> None) = (Prune = Delete)"
    by blast
  then have 6: "\<exists>row. lookupRow (messageKey exampleMessage exampleData) [prunedRow] = Some row \<and>
      rowLifecycle row = opData (exampleEnv 3) Prune \<and> row_deletedAt row = None"
    by auto
  have "\<forall>r \<in> set [exampleRow]. atMostOneLifecycle r"
    using lifecycle_columns_assigned_together [of exampleSdk "exampleEnv 3" exampleMessage Prune
      "[exampleRow]" True "[prunedRow]" exampleData] 3 by blast
  then have 7: "atMostOneLifecycle exampleRow" by simp
  show ?thesis using 1 2 3 4 5 6 7 by blast
qed


text \<open>
  Claim C8. The row built for a message has the timestamp \<^verbatim>\<open>new Date(v)\<close> where \<open>v\<close> is
  the result of converting the message's Farcaster time, never null or undefined; a
  newly stored row carries it; and when the conversion fails, \<^verbatim>\<open>storeMessage\<close> throws
  (the conversion's error, when validation and the body conversion passed) and writes
  nothing.
\<close>

theorem timestamp_never_null:
  "(insertValues s env m d body od = Inr x \<longrightarrow>
      (\<exists>ts. fromFarcasterTime s (md_timestamp d) = Inr ts \<and> row_timestamp x = Defined ts)) \<and>
   (storeMessage s env m operation trx = Inr (result, trx') \<longrightarrow> msg_data m = Some d \<longrightarrow>
      (\<exists>ts. fromFarcasterTime s (md_timestamp d) = Inr ts \<and>
         (lookupRow (messageKey m d) trx = None \<longrightarrow>
            (\<exists>row. lookupRow (messageKey m d) trx' = Some row \<and> row_timestamp row = Defined ts)))) \<and>
   (msg_data m = Some d \<longrightarrow> fromFarcasterTime s (md_timestamp d) = Inl e \<longrightarrow>
      (\<exists>e'. storeMessage s env m operation trx = Inl e')) \<and>
   (validateMessage s m = None \<longrightarrow> msg_data m = Some d \<longrightarrow>
      convertProtobufMessageBodyToJson s m = Inr body \<longrightarrow>
      fromFarcasterTime s (md_timestamp d) = Inl e \<longrightarrow>
      storeMessage s env m operation trx = Inl e)"
proof (intro conjI impI)
  assume "insertValues s env m d body od = Inr x"
  then show "\<exists>ts. fromFarcasterTime s (md_timestamp d) = Inr ts \<and> row_timestamp x = Defined ts"
    by (auto simp: insertValues_Inr)
next
  assume a: "storeMessage s env m operation trx = Inr (result, trx')" "msg_data m = Some d"
  then obtain body' x' where "insertValues s env m d body' (opData env operation) = Inr x'"
    by (auto simp: storeMessage_Inr)
  then obtain ts where ts: "fromFarcasterTime s (md_timestamp d) = Inr ts"
    by (auto simp: insertValues_Inr)
  show "\<exists>ts. fromFarcasterTime s (md_timestamp d) = Inr ts \<and>
         (lookupRow (messageKey m d) trx = None \<longrightarrow>
            (\<exists>row. lookupRow (messageKey m d) trx' = Some row \<and> row_timestamp row = Defined ts))"
    using ts storeMessage_inserted [OF a] by auto
next
  assume a: "msg_data m = Some d" "fromFarcasterTime s (md_timestamp d) = Inl e"
  show "\<exists>e'. storeMessage s env m operation trx = Inl e'"
  proof (cases "storeMessage s env m operation trx")
    case (Inl e')
    then show ?thesis by blast
  next
    case (Inr p)
    obtain res t where "p = (res, t)" by (cases p)
    with Inr a show ?thesis by (auto simp: storeMessage_Inr insertValues_Inr)
  qed
next
  assume "validateMessage s m = None" "msg_data m = Some d"
    "convertProtobufMessageBodyToJson s m = Inr body" "fromFarcasterTime s (md_timestamp d) = Inl e"
  then show "storeMessage s env m operation trx = Inl e"
    by (simp add: storeMessage_def insertValues_def)
qed

theorem timestamp_never_null_witness:
  "insertValues exampleSdk (exampleEnv 1) exampleMessage exampleData exampleBody (opData (exampleEnv 1) Merge)
     = Inr exampleRow \<and>
   storeMessage exampleSdk (exampleEnv 1) exampleMessage Merge [] = Inr (True, [exampleRow]) \<and>
   msg_data exampleMessage = Some exampleData \<and>
   lookupRow (messageKey exampleMessage exampleData) [] = None \<and>
   fromFarcasterTime exampleSdk (md_timestamp exampleData) = Inr 1609459300000 \<and>
   row_timestamp exampleRow = Defined 1609459300000 \<and>
   validateMessage failingTimeSdk exampleMessage = None \<and>
   convertProtobufMessageBodyToJson failingTimeSdk exampleMessage = Inr exampleBody \<and>
   fromFarcasterTime failingTimeSdk (md_timestamp exampleData) = Inl (HubError ''bad time'') \<and>
   storeMessage failingTimeSdk (exampleEnv 1) exampleMessage Merge [] = Inl (HubError ''bad time'')"
proof -
  note t = timestamp_never_null [of exampleSdk "exampleEnv 1" exampleMessage exampleData exampleBody
      "opData (exampleEnv 1) Merge" exampleRow Merge "[]" True "[exampleRow]"]
  note t' = timestamp_never_null [of failingTimeSdk "exampleEnv 1" exampleMessage exampleData exampleBody
      "opData (exampleEnv 1) Merge" exampleRow Merge "[]" True "[exampleRow]" "HubError ''bad time''"]
  have 1: "insertValues exampleSdk (exampleEnv 1) exampleMessage exampleData exampleBody
      (opData (exampleEnv 1) Merge) = Inr exampleRow"
    by (simp add: example_defs store_defs)
  have 2: "msg_data exampleMessage = Some exampleData" by (simp add: example_defs)
  have 3: "lookupRow (messageKey exampleMessage exampleData) [] = None" by (simp add: lookupRow_def)
  have 4: "fromFarcasterTime exampleSdk (md_timestamp exampleData) = Inr 1609459300000"
    by (simp add: example_defs)
  have 5: "row_timestamp exampleRow = Defined 1609459300000" using t 1 4 by auto
  have 6: "validateMessage failingTimeSdk exampleMessage = None"
    by (simp add: failingTimeSdk_def example_defs)
  have 7: "convertProtobufMessageBodyToJson failingTimeSdk exampleMessage = Inr exampleBody"
    by (simp add: failingTimeSdk_def example_defs store_defs)
  have 8: "fromFarcasterTime failingTimeSdk (md_timestamp exampleData) = Inl (HubError ''bad time'')"
    by (simp add: failingTimeSdk_def example_defs)
  have 9: "storeMessage failingTimeSdk (exampleEnv 1) exampleMessage Merge [] = Inl (HubError ''bad time'')"
    using t' 2 6 7 8 by blast
  show ?thesis using 1 2 3 4 5 6 7 8 9 example_first_merge by blast
qed

lemma protocolBytesToString_enum:
  "protocolBytesToString s bs (ProtocolEnum p) = Inr a \<longleftrightarrow>
     (p = ETHEREUM \<and> a = bytesToHex bs) \<or> (p = SOLANA \<and> bytesToBase58 s bs = Inr a)"
  by (cases p) auto

text \<open>
  Claim C9. For a verification-add-address message that converts, the body is a
  verification body whose address is \<^verbatim>\<open>0x\<close> followed by the hex digits of the address
  bytes when the protocol is Ethereum, and the SDK's base58 encoding of them when it is
  Solana; the protocol field is \<^verbatim>\<open>"ethereum"\<close> or \<^verbatim>\<open>"solana"\<close> accordingly. No other
  protocol converts.
\<close>

theorem verification_address_encoding:
  assumes "convertProtobufMessageBodyToJson s m = Inr body" "msg_data m = Some d"
    "md_type d = VERIFICATION_ADD_ETH_ADDRESS"
  shows "\<exists>b a c h p. md_verificationAddAddressBody d = Some b \<and>
           body = VerificationAddEthAddressBodyJson a c h p \<and>
           (vab_protocol b = ETHEREUM \<or> vab_protocol b = SOLANA) \<and>
           (vab_protocol b = ETHEREUM \<longrightarrow>
              a = ''0x'' @ toHexString (vab_address b) \<and> p = Some ''ethereum'') \<and>
           (vab_protocol b = SOLANA \<longrightarrow>
              bytesToBase58 s (vab_address b) = Inr a \<and> p = Some ''solana'')"
proof -
  from assms obtain b where b: "md_verificationAddAddressBody d = Some b"
    and c: "convertVerificationAdd s b = Inr body"
    by (auto simp: convertProtobufMessageBodyToJson_def split: option.splits)
  from c obtain a cs h where
    a: "protocolBytesToString s (vab_address b) (ProtocolEnum (vab_protocol b)) = Inr a"
    and body: "body = VerificationAddEthAddressBodyJson a cs h
                 (hubProtocolToVerificationProtocol (vab_protocol b))"
    by (auto simp: convertVerificationAdd_def split: sum.splits)
  from a have "(vab_protocol b = ETHEREUM \<and> a = bytesToHex (vab_address b)) \<or>
     (vab_protocol b = SOLANA \<and> bytesToBase58 s (vab_address b) = Inr a)"
    by (simp add: protocolBytesToString_enum)
  then show ?thesis using b body by (auto simp: bytesToHex_def)
qed

lemma example_hex: "toHexString exampleAddress = ''0102030405060708090a0b0c0d0e0f1011121314''"
  by (simp add: exampleAddress_def toHexString_def byteToHex_def hexDigit_def)

lemma example_hex_small: "toHexString [171] = ''ab''" "toHexString [205] = ''cd''"
  by (simp_all add: toHexString_def byteToHex_def hexDigit_def)

lemma example_verification_ethereum:
  "convertProtobufMessageBodyToJson exampleSdk (exampleVerification ETHEREUM exampleAddress)
     = Inr (VerificationAddEthAddressBodyJson ''0x0102030405060708090a0b0c0d0e0f1011121314''
              ''0xab'' ''0xcd'' (Some ''ethereum''))"
  by (simp add: convertProtobufMessageBodyToJson_def exampleVerification_def
      exampleVerificationData_def exampleData_def convertVerificationAdd_def bytesToHex_def
      example_hex example_hex_small)

lemma example_verification_solana:
  "convertProtobufMessageBodyToJson exampleSdk (exampleVerification SOLANA exampleAddress)
     = Inr (VerificationAddEthAddressBodyJson ''base58:0102030405060708090a0b0c0d0e0f1011121314''
              ''base58:ab'' ''base58:cd'' (Some ''solana''))"
  by (simp add: convertProtobufMessageBodyToJson_def exampleVerification_def
      exampleVerificationData_def exampleData_def convertVerificationAdd_def exampleSdk_def
      example_hex example_hex_small)

theorem verification_address_encoding_witness:
  "convertProtobufMessageBodyToJson exampleSdk (exampleVerification ETHEREUM exampleAddress)
     = Inr (VerificationAddEthAddressBodyJson ''0x0102030405060708090a0b0c0d0e0f1011121314''
              ''0xab'' ''0xcd'' (Some ''ethereum'')) \<and>
   msg_data (exampleVerification ETHEREUM exampleAddress)
     = Some (exampleVerificationData ETHEREUM exampleAddress) \<and>
   md_type (exampleVerificationData ETHEREUM exampleAddress) = VERIFICATION_ADD_ETH_ADDRESS \<and>
   ''0x0102030405060708090a0b0c0d0e0f1011121314'' = ''0x'' @ toHexString exampleAddress \<and>
   convertProtobufMessageBodyToJson exampleSdk (exampleVerification SOLANA exampleAddress)
     = Inr (VerificationAddEthAddressBodyJson ''base58:0102030405060708090a0b0c0d0e0f1011121314''
              ''base58:ab'' ''base58:cd'' (Some ''solana'')) \<and>
   bytesToBase58 exampleSdk exampleAddress = Inr ''base58:0102030405060708090a0b0c0d0e0f1011121314''"
proof -
  have 1: "msg_data (exampleVerification p exampleAddress) = Some (exampleVerificationData p exampleAddress)"
    for p by (simp add: exampleVerification_def)
  have 2: "md_type (exampleVerificationData p exampleAddress) = VERIFICATION_ADD_ETH_ADDRESS"
    for p by (simp add: exampleVerificationData_def)
  have 3: "md_verificationAddAddressBody (exampleVerificationData p exampleAddress)
      = Some \<lparr>vab_address = exampleAddress, vab_claimSignature = [171], vab_blockHash = [205],
              vab_protocol = p\<rparr>"
    for p by (simp add: exampleVerificationData_def)
  have e: "''0x0102030405060708090a0b0c0d0e0f1011121314'' = ''0x'' @ toHexString exampleAddress"
    using verification_address_encoding [OF example_verification_ethereum 1 2] 3 by auto
  have b: "bytesToBase58 exampleSdk exampleAddress
      = Inr ''base58:0102030405060708090a0b0c0d0e0f1011121314''"
    using verification_address_encoding [OF example_verification_solana 1 2] 3 by auto
  show ?thesis
    using e b 1 2 example_verification_ethereum example_verification_solana by blast
qed

section \<open>The checkpoint and the dispatcher\<close>

lemma digitChar_value:
  assumes "k < 10"
  shows "digitValue (digitChar k) = k \<and> isDigit (digitChar k)"
proof -
  have "k \<in> {0, 1, 2, 3, 4, 5, 6, 7, 8, 9}" using assms by auto
  then show ?thesis
    by (auto simp: digitChar_def digitValue_def isDigit_def)
qed

lemma decimalDigits_digits: "\<forall>c \<in> set (decimalDigits n). isDigit c"
proof (induction n rule: decimalDigits.induct)
  case (1 n)
  show ?case
  proof (cases "n < 10")
    case True
    then show ?thesis by (subst decimalDigits.simps) (simp add: digitChar_value)
  next
    case False
    have "isDigit (digitChar (n mod 10))" by (simp add: digitChar_value)
    with False 1 show ?thesis by (subst decimalDigits.simps) auto
  qed
qed

lemma decimalDigits_nonempty: "decimalDigits n \<noteq> []"
  by (subst decimalDigits.simps) simp

lemma decimalDigits_value: "foldl (\<lambda>acc c. 10 * acc + digitValue c) 0 (decimalDigits n) = n"
proof (induction n rule: decimalDigits.induct)
  case (1 n)
  show ?case
  proof (cases "n < 10")
    case True
    then show ?thesis by (subst decimalDigits.simps) (simp add: digitChar_value)
  next
    case False
    have "digitValue (digitChar (n mod 10)) = n mod 10" by (simp add: digitChar_value)
    with False 1 show ?thesis by (subst decimalDigits.simps) simp
  qed
qed

lemma parseInt_numberToString:
  assumes "n \<le> MAX_SAFE_INTEGER"
  shows "parseInt rt (numberToString rt n) = Some n"
proof -
  have tw: "takeWhile isDigit (decimalDigits n) = decimalDigits n"
    using decimalDigits_digits by (simp add: takeWhile_eq_all_conv)
  have "parseInt rt (decimalDigits n) = Some n"
    unfolding parseInt_def tw
    using decimalDigits_nonempty [of n] decimalDigits_value [of n] assms
    by (cases "decimalDigits n") (simp_all add: Let_def)
  then show ?thesis using assms by (simp add: numberToString_def)
qed

lemma get_set_checkpoint:
  "eventId \<le> MAX_SAFE_INTEGER \<Longrightarrow>
     getLastProcessedEvent rt hubId (setLastProcessedEvent rt hubId eventId client) = Some eventId"
proof -
  assume b: "eventId \<le> MAX_SAFE_INTEGER"
  then have "numberToString rt eventId \<noteq> []"
    by (simp add: numberToString_def decimalDigits_nonempty)
  then show ?thesis
    using parseInt_numberToString [OF b, of rt]
    by (simp add: getLastProcessedEvent_def setLastProcessedEvent_def)
qed

lemma get_set_other_hub:
  "hubId' \<noteq> hubId \<Longrightarrow>
     getLastProcessedEvent rt hubId' (setLastProcessedEvent rt hubId eventId client)
       = getLastProcessedEvent rt hubId' client"
  by (simp add: getLastProcessedEvent_def setLastProcessedEvent_def lastProcessedEventKey_def)

lemma example_checkpoint:
  "getLastProcessedEvent exampleRuntime ''hub-1'' (sh_redis (exampleShuttle db)) = Some 100"
  by (simp add: exampleShuttle_def get_set_checkpoint MAX_SAFE_INTEGER_def)

text \<open>
  Above the safe range the round trip is lost: \<^verbatim>\<open>(1e21).toString()\<close> is \<^verbatim>\<open>"1e+21"\<close>, of
  which \<^verbatim>\<open>parseInt\<close> reads the leading digit.
\<close>

lemma checkpoint_exponent_notation:
  "getLastProcessedEvent exampleRuntime ''hub-1''
     (setLastProcessedEvent exampleRuntime ''hub-1'' (10 ^ 21) Map.empty) = Some 1"
  by (simp add: getLastProcessedEvent_def setLastProcessedEvent_def numberToString_def
      MAX_SAFE_INTEGER_def exampleRuntime_def parseInt_def isDigit_def digitValue_def)

lemma processMergeMessage_redis:
  "sh_redis (snd (processMergeMessage s env m handler wasMissed st)) = sh_redis st"
  by (simp add: processMergeMessage_def split: prod.splits)

lemma processMergeMessage_thrown:
  "processMergeMessage s env m handler wasMissed st = (Some e, st') \<Longrightarrow> sh_db st' = sh_db st"
  by (auto simp: processMergeMessage_def transaction_execute_def split: prod.splits sum.splits)

lemma processHubEvent_merge:
  "isMergeMessageHubEvent event \<Longrightarrow> he_mergeMessageBody event = Some body \<Longrightarrow>
     mmb_message body = Some m \<Longrightarrow>
     processHubEvent s env event handler st = processMergeMessage s env m handler False st"
  by (simp add: processHubEvent_def)

text \<open>
  Claim C7. An event whose type is not merge-message is not processed: the dispatcher
  returns without an error and the whole state (table, checkpoints, handler state) is the
  one it was given, whatever the handler is.
\<close>

theorem non_merge_event_ignored:
  "he_type event \<noteq> MERGE_MESSAGE \<Longrightarrow> processHubEvent s env event handler st = (None, st)"
  by (simp add: processHubEvent_def isMergeMessageHubEvent_def)

theorem non_merge_event_ignored_witness:
  "he_type (exampleEvent PRUNE_MESSAGE 7) \<noteq> MERGE_MESSAGE \<and>
   processHubEvent exampleSdk (exampleEnv 1) (exampleEvent PRUNE_MESSAGE 7) raisingHandler
     (exampleShuttle [exampleRow]) = (None, exampleShuttle [exampleRow])"
proof -
  have h: "he_type (exampleEvent PRUNE_MESSAGE 7) \<noteq> MERGE_MESSAGE" by (simp add: exampleEvent_def)
  show ?thesis using h non_merge_event_ignored [OF h] by simp
qed

text \<open>
  Claim C4, as amended. When the message has been stored in the transaction and the
  handler then raises, the dispatcher rethrows the handler's error and only the handler's
  own state has moved. Whenever the dispatcher throws, the table and the checkpoints are
  the ones from before the dispatch, so a row is present afterwards exactly when it was
  present before.
\<close>

theorem handler_raise_rolls_back:
  "(isMergeMessageHubEvent event \<longrightarrow> he_mergeMessageBody event = Some body \<longrightarrow>
      mmb_message body = Some m \<longrightarrow>
      storeMessage s env m Merge (sh_db st) = Inr (result, trx') \<longrightarrow>
      handler m trx' Merge False (sh_handler st) = (h', Inl e) \<longrightarrow>
      processHubEvent s env event handler st = (Some e, st\<lparr>sh_handler := h'\<rparr>)) \<and>
   (processHubEvent s env event handler st = (Some e, st') \<longrightarrow>
      sh_db st' = sh_db st \<and> sh_redis st' = sh_redis st \<and>
      lookupRow k (sh_db st') = lookupRow k (sh_db st))"
proof (intro conjI impI)
  assume a: "isMergeMessageHubEvent event" "he_mergeMessageBody event = Some body"
    "mmb_message body = Some m" "storeMessage s env m Merge (sh_db st) = Inr (result, trx')"
    "handler m trx' Merge False (sh_handler st) = (h', Inl e)"
  show "processHubEvent s env event handler st = (Some e, st\<lparr>sh_handler := h'\<rparr>)"
    using a by (simp add: processHubEvent_merge processMergeMessage_def transaction_execute_def)
next
  assume a: "processHubEvent s env event handler st = (Some e, st')"
  have r: "sh_redis (snd (processHubEvent s env event handler st)) = sh_redis st"
    by (simp add: processHubEvent_def processMergeMessage_redis split: option.splits)
  have d: "sh_db st' = sh_db st"
    using a by (auto simp: processHubEvent_def split: if_splits option.splits
        dest: processMergeMessage_thrown)
  show "sh_db st' = sh_db st" by (rule d)
  show "sh_redis st' = sh_redis st" using r a by simp
  show "lookupRow k (sh_db st') = lookupRow k (sh_db st)" using d by simp
qed

lemma example_event:
  "isMergeMessageHubEvent (exampleEvent MERGE_MESSAGE n)"
  "he_mergeMessageBody (exampleEvent MERGE_MESSAGE n)
     = Some \<lparr>mmb_message = Some exampleMessage, mmb_deletedMessages = []\<rparr>"
  by (simp_all add: exampleEvent_def isMergeMessageHubEvent_def)

lemma example_second_merge:
  "storeMessage exampleSdk (exampleEnv 2) exampleMessage Merge [exampleRow] = Inr (False, [exampleRow])"
  using merge_again_noop [OF example_first_merge] .

theorem handler_raise_rolls_back_witness:
  "isMergeMessageHubEvent (exampleEvent MERGE_MESSAGE 101) \<and>
   storeMessage exampleSdk (exampleEnv 1) exampleMessage Merge (sh_db (exampleShuttle []))
     = Inr (True, [exampleRow]) \<and>
   raisingHandler exampleMessage [exampleRow] Merge False (sh_handler (exampleShuttle []))
     = (1, Inl (HandlerError ''handler failed'')) \<and>
   processHubEvent exampleSdk (exampleEnv 1) (exampleEvent MERGE_MESSAGE 101) raisingHandler
     (exampleShuttle []) = (Some (HandlerError ''handler failed''), (exampleShuttle [])\<lparr>sh_handler := 1\<rparr>) \<and>
   lookupRow (messageKey exampleMessage exampleData) (sh_db ((exampleShuttle [])\<lparr>sh_handler := 1\<rparr>)) = None \<and>
   getLastProcessedEvent exampleRuntime ''hub-1'' (sh_redis ((exampleShuttle [])\<lparr>sh_handler := 1\<rparr>))
     = Some 100"
proof -
  note t = handler_raise_rolls_back [of "exampleEvent MERGE_MESSAGE 101"
      "\<lparr>mmb_message = Some exampleMessage, mmb_deletedMessages = []\<rparr>" exampleMessage exampleSdk
      "exampleEnv 1" "exampleShuttle []" True "[exampleRow]" raisingHandler 1
      "HandlerError ''handler failed''" "(exampleShuttle [])\<lparr>sh_handler := 1\<rparr>"
      "messageKey exampleMessage exampleData"]
  have 1: "storeMessage exampleSdk (exampleEnv 1) exampleMessage Merge (sh_db (exampleShuttle []))
     = Inr (True, [exampleRow])"
    using example_first_merge by (simp add: exampleShuttle_def)
  have 2: "raisingHandler exampleMessage [exampleRow] Merge False (sh_handler (exampleShuttle []))
     = (1, Inl (HandlerError ''handler failed''))"
    by (simp add: raisingHandler_def exampleShuttle_def)
  have 3: "processHubEvent exampleSdk (exampleEnv 1) (exampleEvent MERGE_MESSAGE 101) raisingHandler
     (exampleShuttle []) = (Some (HandlerError ''handler failed''), (exampleShuttle [])\<lparr>sh_handler := 1\<rparr>)"
    using t example_event 1 2 by simp
  have 4: "lookupRow (messageKey exampleMessage exampleData)
      (sh_db ((exampleShuttle [])\<lparr>sh_handler := 1\<rparr>)) = None"
    using t 3 by (simp add: exampleShuttle_def lookupRow_def)
  have 5: "getLastProcessedEvent exampleRuntime ''hub-1''
      (sh_redis ((exampleShuttle [])\<lparr>sh_handler := 1\<rparr>)) = Some 100"
    using t 3 example_checkpoint [of "[]"] by simp
  show ?thesis using example_event(1) 1 2 3 4 5 by blast
qed

text \<open>
  The claim as stated says that no row for the message is present after the abort. A
  message that was stored before the dispatch is still stored after it.
\<close>

theorem handler_raise_row_present_counterexample:
  "isMergeMessageHubEvent (exampleEvent MERGE_MESSAGE 101) \<and>
   raisingHandler exampleMessage [exampleRow] Merge False 0 = (1, Inl (HandlerError ''handler failed'')) \<and>
   processHubEvent exampleSdk (exampleEnv 2) (exampleEvent MERGE_MESSAGE 101) raisingHandler
     (exampleShuttle [exampleRow])
     = (Some (HandlerError ''handler failed''), (exampleShuttle [exampleRow])\<lparr>sh_handler := 1\<rparr>) \<and>
   lookupRow (messageKey exampleMessage exampleData)
     (sh_db ((exampleShuttle [exampleRow])\<lparr>sh_handler := 1\<rparr>)) = Some exampleRow"
proof -
  have 1: "raisingHandler exampleMessage [exampleRow] Merge False 0 = (1, Inl (HandlerError ''handler failed''))"
    by (simp add: raisingHandler_def)
  have 2: "processHubEvent exampleSdk (exampleEnv 2) (exampleEvent MERGE_MESSAGE 101) raisingHandler
     (exampleShuttle [exampleRow])
     = (Some (HandlerError ''handler failed''), (exampleShuttle [exampleRow])\<lparr>sh_handler := 1\<rparr>)"
    using example_second_merge 1
    by (simp add: processHubEvent_merge [OF example_event] processMergeMessage_def
        transaction_execute_def exampleShuttle_def)
  have 3: "lookupRow (messageKey exampleMessage exampleData)
     (sh_db ((exampleShuttle [exampleRow])\<lparr>sh_handler := 1\<rparr>)) = Some exampleRow"
    using example_lookup by (simp add: exampleShuttle_def)
  show ?thesis using example_event(1) 1 2 3 by blast
qed

text \<open>
  Claim C5, as amended. The dispatcher never writes the checkpoint: after
  \<^verbatim>\<open>processHubEvent\<close> and after \<^verbatim>\<open>handleMissingMessage\<close> the Redis keyspace is the one
  from before. Saving is the caller's call of \<^verbatim>\<open>setLastProcessedEvent\<close>: it writes
  \<^verbatim>\<open>eventId.toString()\<close> under the key \<^verbatim>\<open>hub:<hubId>:last-hub-event-id\<close> and nothing
  else, the decimal digits for an id up to \<^verbatim>\<open>Number.MAX_SAFE_INTEGER\<close>. For such an id
  \<^verbatim>\<open>getLastProcessedEvent\<close> of that hub then returns it, and the checkpoint of every
  other hub is as before; made with the event's id after the dispatch, the call makes
  the checkpoint of that hub the event's id.
\<close>

theorem checkpoint_left_to_caller:
  "sh_redis (snd (processHubEvent s env event handler st)) = sh_redis st \<and>
   sh_redis (snd (handleMissingMessage s env m handler st)) = sh_redis st \<and>
   setLastProcessedEvent rt hubId eventId client
     = client(''hub:'' @ hubId @ '':last-hub-event-id'' \<mapsto> numberToString rt eventId) \<and>
   (eventId \<le> MAX_SAFE_INTEGER \<longrightarrow>
      setLastProcessedEvent rt hubId eventId client (''hub:'' @ hubId @ '':last-hub-event-id'')
        = Some (decimalDigits eventId) \<and>
      getLastProcessedEvent rt hubId (setLastProcessedEvent rt hubId eventId client) = Some eventId) \<and>
   (hubId' \<noteq> hubId \<longrightarrow>
      getLastProcessedEvent rt hubId' (setLastProcessedEvent rt hubId eventId client)
        = getLastProcessedEvent rt hubId' client) \<and>
   (he_id event \<le> MAX_SAFE_INTEGER \<longrightarrow>
      getLastProcessedEvent rt hubId
        (setLastProcessedEvent rt hubId (he_id event)
           (sh_redis (snd (processHubEvent s env event handler st)))) = Some (he_id event))"
proof (intro conjI impI)
  show r: "sh_redis (snd (processHubEvent s env event handler st)) = sh_redis st"
    by (simp add: processHubEvent_def processMergeMessage_redis split: option.splits)
  show "sh_redis (snd (handleMissingMessage s env m handler st)) = sh_redis st"
    by (simp add: handleMissingMessage_def processMergeMessage_redis)
  show "setLastProcessedEvent rt hubId eventId client
     = client(''hub:'' @ hubId @ '':last-hub-event-id'' \<mapsto> numberToString rt eventId)"
    by (simp add: setLastProcessedEvent_def lastProcessedEventKey_def)
  show "getLastProcessedEvent rt hubId' (setLastProcessedEvent rt hubId eventId client)
        = getLastProcessedEvent rt hubId' client" if "hubId' \<noteq> hubId"
    using that by (rule get_set_other_hub)
  show "getLastProcessedEvent rt hubId
        (setLastProcessedEvent rt hubId (he_id event)
           (sh_redis (snd (processHubEvent s env event handler st)))) = Some (he_id event)"
    if "he_id event \<le> MAX_SAFE_INTEGER"
    using that by (rule get_set_checkpoint)
next
  assume b: "eventId \<le> MAX_SAFE_INTEGER"
  then show "setLastProcessedEvent rt hubId eventId client (''hub:'' @ hubId @ '':last-hub-event-id'')
        = Some (decimalDigits eventId)"
    by (simp add: setLastProcessedEvent_def lastProcessedEventKey_def numberToString_def)
  from b show "getLastProcessedEvent rt hubId (setLastProcessedEvent rt hubId eventId client)
      = Some eventId"
    by (rule get_set_checkpoint)
qed

lemma example_bounds:
  "(101::nat) \<le> MAX_SAFE_INTEGER" "he_id (exampleEvent MERGE_MESSAGE 101) \<le> MAX_SAFE_INTEGER"
  by (simp_all add: MAX_SAFE_INTEGER_def exampleEvent_def)

lemma example_digits: "decimalDigits 101 = ''101''"
  by (simp add: decimalDigits.simps digitChar_def)

theorem checkpoint_left_to_caller_witness:
  "sh_redis (snd (processHubEvent exampleSdk (exampleEnv 1) (exampleEvent MERGE_MESSAGE 101)
      countingHandler (exampleShuttle []))) = sh_redis (exampleShuttle []) \<and>
   getLastProcessedEvent exampleRuntime ''hub-1'' (sh_redis (exampleShuttle [])) = Some 100 \<and>
   (101::nat) \<le> MAX_SAFE_INTEGER \<and>
   he_id (exampleEvent MERGE_MESSAGE 101) \<le> MAX_SAFE_INTEGER \<and>
   ''hub-2'' \<noteq> ''hub-1'' \<and>
   setLastProcessedEvent exampleRuntime ''hub-1'' 101 (sh_redis (exampleShuttle []))
     ''hub:hub-1:last-hub-event-id'' = Some ''101'' \<and>
   getLastProcessedEvent exampleRuntime ''hub-1''
     (setLastProcessedEvent exampleRuntime ''hub-1'' 101 (sh_redis (exampleShuttle []))) = Some 101 \<and>
   getLastProcessedEvent exampleRuntime ''hub-2''
     (setLastProcessedEvent exampleRuntime ''hub-1'' 101 (sh_redis (exampleShuttle []))) = Some 0 \<and>
   getLastProcessedEvent exampleRuntime ''hub-1''
     (setLastProcessedEvent exampleRuntime ''hub-1'' (he_id (exampleEvent MERGE_MESSAGE 101))
        (sh_redis (snd (processHubEvent exampleSdk (exampleEnv 1) (exampleEvent MERGE_MESSAGE 101)
           countingHandler (exampleShuttle []))))) = Some 101"
proof -
  note t = checkpoint_left_to_caller [of exampleSdk "exampleEnv 1" "exampleEvent MERGE_MESSAGE 101"
      countingHandler "exampleShuttle []" exampleMessage exampleRuntime "''hub-1''" 101
      "sh_redis (exampleShuttle [])" "''hub-2''"]
  have n: "''hub-2'' \<noteq> ''hub-1''" by simp
  from t have a: "sh_redis (snd (processHubEvent exampleSdk (exampleEnv 1)
      (exampleEvent MERGE_MESSAGE 101) countingHandler (exampleShuttle []))) = sh_redis (exampleShuttle [])"
    by blast
  from t example_bounds(1)
  have b: "setLastProcessedEvent exampleRuntime ''hub-1'' 101 (sh_redis (exampleShuttle []))
       (''hub:'' @ ''hub-1'' @ '':last-hub-event-id'') = Some (decimalDigits 101)"
    and c: "getLastProcessedEvent exampleRuntime ''hub-1''
     (setLastProcessedEvent exampleRuntime ''hub-1'' 101 (sh_redis (exampleShuttle []))) = Some 101"
    by blast+
  from t n have "getLastProcessedEvent exampleRuntime ''hub-2''
     (setLastProcessedEvent exampleRuntime ''hub-1'' 101 (sh_redis (exampleShuttle [])))
       = getLastProcessedEvent exampleRuntime ''hub-2'' (sh_redis (exampleShuttle []))"
    by blast
  also have "\<dots> = Some 0"
    by (simp add: exampleShuttle_def getLastProcessedEvent_def setLastProcessedEvent_def
        lastProcessedEventKey_def)
  finally have d: "getLastProcessedEvent exampleRuntime ''hub-2''
     (setLastProcessedEvent exampleRuntime ''hub-1'' 101 (sh_redis (exampleShuttle []))) = Some 0" .
  from t example_bounds(2)
  have e: "getLastProcessedEvent exampleRuntime ''hub-1''
     (setLastProcessedEvent exampleRuntime ''hub-1'' (he_id (exampleEvent MERGE_MESSAGE 101))
        (sh_redis (snd (processHubEvent exampleSdk (exampleEnv 1) (exampleEvent MERGE_MESSAGE 101)
           countingHandler (exampleShuttle []))))) = Some (he_id (exampleEvent MERGE_MESSAGE 101))"
    by blast
  have 2: "he_id (exampleEvent MERGE_MESSAGE 101) = 101" by (simp add: exampleEvent_def)
  have b': "setLastProcessedEvent exampleRuntime ''hub-1'' 101 (sh_redis (exampleShuttle []))
     ''hub:hub-1:last-hub-event-id'' = Some ''101''"
    using b by (simp add: example_digits)
  show ?thesis
    using a example_checkpoint [of "[]"] example_bounds n b' c d e unfolding 2 by blast
qed

text \<open>
  The claim as stated says that the dispatcher saves the event's id. After a committed
  dispatch of event 101 the checkpoint is still 100.
\<close>

theorem checkpoint_not_saved_counterexample:
  "isMergeMessageHubEvent (exampleEvent MERGE_MESSAGE 101) \<and>
   he_id (exampleEvent MERGE_MESSAGE 101) = 101 \<and>
   processHubEvent exampleSdk (exampleEnv 1) (exampleEvent MERGE_MESSAGE 101) countingHandler
     (exampleShuttle []) = (None, (exampleShuttle [exampleRow])\<lparr>sh_handler := 1\<rparr>) \<and>
   getLastProcessedEvent exampleRuntime ''hub-1''
     (sh_redis ((exampleShuttle [exampleRow])\<lparr>sh_handler := 1\<rparr>)) = Some 100"
proof -
  have 1: "he_id (exampleEvent MERGE_MESSAGE 101) = 101" by (simp add: exampleEvent_def)
  have 2: "processHubEvent exampleSdk (exampleEnv 1) (exampleEvent MERGE_MESSAGE 101) countingHandler
     (exampleShuttle []) = (None, (exampleShuttle [exampleRow])\<lparr>sh_handler := 1\<rparr>)"
    using example_first_merge
    by (simp add: processHubEvent_merge [OF example_event] processMergeMessage_def
        transaction_execute_def exampleShuttle_def countingHandler_def)
  have 3: "getLastProcessedEvent exampleRuntime ''hub-1''
     (sh_redis ((exampleShuttle [exampleRow])\<lparr>sh_handler := 1\<rparr>)) = Some 100"
    using example_checkpoint [of "[exampleRow]"] by simp
  show ?thesis using example_event(1) 1 2 3 by blast
qed

section \<open>The reconciler\<close>














































end
